theory Spec2Isabelle
  imports Main "HOL-Library.Word" "HOL-Library.Product_Lexorder"
begin

section \<open>Go values shared by the signer package\<close>

text \<open>
  A Go \<open>[]byte\<close> is either \<open>nil\<close> or a (possibly empty) sequence of bytes; the
  source compares slices with \<open>nil\<close>, so the model keeps the two apart:
  \<open>None\<close> is the nil slice and \<open>Some bs\<close> a non-nil slice with contents \<open>bs\<close>.
  \<open>int64\<close> and \<open>int8\<close> are machine words read as two's complement; the source
  only compares them, with Go's signed greater-than.
\<close>

type_synonym byte = "8 word"
type_synonym bytes = "byte list"
type_synonym slice = "bytes option"
type_synonym int64 = "64 word"
type_synonym int8 = "8 word"

definition len :: "slice \<Rightarrow> nat" where
  "len b = (case b of None \<Rightarrow> 0 | Some bs \<Rightarrow> length bs)"

text \<open>
  Errors are values. The constructors are the errors the package builds itself,
  with the values its format strings print; \<open>LibError\<close> is an error handed
  back by a library call, carrying its text. \<open>Error\<close> is Go's \<open>err.Error()\<close>;
  \<open>fmtInt\<close> is the decimal rendering \<open>%v\<close> gives an integer.
\<close>

datatype error =
    HeightRegression int64 int64
  | RoundRegression int64 int64 int64
  | StepRegression int64 int64 int8 int8
  | NoSignBytesFound
  | CouldNotUnpackHRS
  | UnknownMsg string
  | LibError string

function fmtNat :: "nat \<Rightarrow> string" where
  "fmtNat n = (if n < 10 then [char_of (48 + n)]
               else fmtNat (n div 10) @ [char_of (48 + n mod 10)])"
  by pat_completeness auto
termination
  by (relation "measure id") auto

definition fmtInt :: "int \<Rightarrow> string" where
  "fmtInt i = (if i < 0 then CHR ''-'' # fmtNat (nat (- i)) else fmtNat (nat i))"

fun Error :: "error \<Rightarrow> string" where
  "Error (HeightRegression height lastHeight) =
     ''height regression. Got '' @ fmtInt (sint height) @ '', last height '' @ fmtInt (sint lastHeight)"
| "Error (RoundRegression height round lastRound) =
     ''round regression at height '' @ fmtInt (sint height) @ ''. Got '' @ fmtInt (sint round)
       @ '', last round '' @ fmtInt (sint lastRound)"
| "Error (StepRegression height round step lastStep) =
     ''step regression at height '' @ fmtInt (sint height) @ '' round '' @ fmtInt (sint round)
       @ ''. Got '' @ fmtInt (sint step) @ '', last step '' @ fmtInt (sint lastStep)"
| "Error NoSignBytesFound = ''no SignBytes found''"
| "Error CouldNotUnpackHRS = ''Could not UnpackHRS from sign bytes''"
| "Error (UnknownMsg req) = ''unknown msg: '' @ req"
| "Error (LibError text) = text"

text \<open>
  A call either returns a value or panics, which ends the process. A panic carries
  a fixed message, an error value, or a message formatted around an error.
\<close>

datatype panic = PanicMsg string | PanicErr error | PanicFmt string error

datatype 'a outcome = Returns 'a | Panics panic

section \<open>SignState.go\<close>

definition stepNone :: int8 where "stepNone = 0"
definition stepPropose :: int8 where "stepPropose = 1"
definition stepPrevote :: int8 where "stepPrevote = 2"
definition stepPrecommit :: int8 where "stepPrecommit = 3"

record SignState =
  Height :: int64
  Round :: int64
  Step :: int8
  EphemeralPublic :: slice
  Signature :: slice
  SignBytes :: slice
  filePath :: string

text \<open>
  \<open>SignState.CheckHRS\<close>. Go's \<open>signState.Height > height\<close> on \<open>int64\<close> is the
  signed comparison \<open>height <s Height signState\<close>.
\<close>

definition CheckHRS :: "SignState \<Rightarrow> int64 \<Rightarrow> int64 \<Rightarrow> int8 \<Rightarrow> (bool \<times> error option) outcome" where
  "CheckHRS signState height round step =
     (if height <s Height signState then
        Returns (False, Some (HeightRegression height (Height signState)))
      else if Height signState = height then
        (if round <s Round signState then
           Returns (False, Some (RoundRegression height round (Round signState)))
         else if Round signState = round then
           (if step <s Step signState then
              Returns (False, Some (StepRegression height round step (Step signState)))
            else if Step signState = step then
              (if SignBytes signState \<noteq> None then
                 (if Signature signState = None then
                    Panics (PanicMsg ''pv: Signature is nil but SignBytes is not!'')
                  else Returns (True, None))
               else Returns (False, Some NoSignBytesFound))
            else Returns (False, None))
         else Returns (False, None))
      else Returns (False, None))"

text \<open>
  The (height, round, step) triple as integers, ordered lexicographically by the
  product order of \<open>HOL-Library.Product_Lexorder\<close>.
\<close>

definition hrs :: "int64 \<Rightarrow> int64 \<Rightarrow> int8 \<Rightarrow> int \<times> int \<times> int" where
  "hrs h r s = (sint h, sint r, sint s)"

definition stored :: "SignState \<Rightarrow> int \<times> int \<times> int" where
  "stored S = hrs (Height S) (Round S) (Step S)"

text \<open>The three results the callers of \<open>CheckHRS\<close> tell apart.\<close>

definition isRegression :: "(bool \<times> error option) outcome \<Rightarrow> bool" where
  "isRegression res = (case res of Returns (_, Some _) \<Rightarrow> True | _ \<Rightarrow> False)"

definition isReplay :: "(bool \<times> error option) outcome \<Rightarrow> bool" where
  "isReplay res = (res = Returns (True, None))"

definition isFreshOK :: "(bool \<times> error option) outcome \<Rightarrow> bool" where
  "isFreshOK res = (res = Returns (False, None))"

definition isPanic :: "'a outcome \<Rightarrow> bool" where
  "isPanic res = (case res of Panics _ \<Rightarrow> True | Returns _ \<Rightarrow> False)"

subsection \<open>Canonical payloads and the codec\<close>

text \<open>
  \<open>types.CanonicalVote\<close> and \<open>types.CanonicalProposal\<close> are Tendermint's; the
  fields carry a prefix because \<open>SignState\<close> has \<open>Height\<close> and \<open>Round\<close> too.
  A \<open>time.Time\<close> is an instant, counted in nanoseconds from the zero value
  \<open>time.Time{}\<close>.
\<close>

type_synonym Time = int

definition zeroTime :: Time where "zeroTime = 0"

definition PrevoteType :: byte where "PrevoteType = 1"
definition PrecommitType :: byte where "PrecommitType = 2"

record CanonicalVote =
  vType :: byte
  vHeight :: int64
  vRound :: int64
  vBlockID :: bytes
  vTimestamp :: Time
  vChainID :: string

record CanonicalProposal =
  pType :: byte
  pHeight :: int64
  pRound :: int64
  pPOLRound :: int64
  pBlockID :: bytes
  pTimestamp :: Time
  pChainID :: string

text \<open>
  The package-level amino codec \<open>cdc\<close> is built outside these files, so the calls
  the source makes on it are parameters: decoding a length-prefixed payload
  into a zero-valued vote or proposal, encoding a vote as JSON and a proposal as
  length-prefixed binary (each returning bytes and an error, as in Go), and
  the JSON form of a \<open>SignState\<close>. \<open>UnmarshalJSON\<close> fills the state it is given
  and may leave it partly filled when it fails.
\<close>

record Codec =
  UnmarshalVote :: "slice \<Rightarrow> error + CanonicalVote"
  UnmarshalProposal :: "slice \<Rightarrow> error + CanonicalProposal"
  MarshalJSONVote :: "CanonicalVote \<Rightarrow> slice \<times> error option"
  MarshalProposal :: "CanonicalProposal \<Rightarrow> slice \<times> error option"
  MarshalJSONIndent :: "SignState \<Rightarrow> slice \<times> error option"
  UnmarshalJSON :: "slice \<Rightarrow> SignState \<Rightarrow> SignState \<times> error option"

text \<open>
  The file system is a parameter as well: \<open>ioutil.ReadFile\<close> and Tendermint's
  \<open>tempfile.WriteFileAtomic\<close> (path, data, permission bits), over any type of
  file-system states.
\<close>

record 'fs OS =
  ReadFile :: "'fs \<Rightarrow> string \<Rightarrow> error + slice"
  WriteFileAtomic :: "'fs \<Rightarrow> string \<Rightarrow> slice \<Rightarrow> nat \<Rightarrow> error + 'fs"

text \<open>Go's \<open>bytes.Equal\<close>: a nil slice equals an empty one.\<close>

definition bytes_Equal :: "slice \<Rightarrow> slice \<Rightarrow> bool" where
  "bytes_Equal a b = ((case a of None \<Rightarrow> [] | Some x \<Rightarrow> x) = (case b of None \<Rightarrow> [] | Some y \<Rightarrow> y))"

subsection \<open>Steps\<close>

definition CanonicalVoteToStep :: "CanonicalVote \<Rightarrow> int8 outcome" where
  "CanonicalVoteToStep vote =
     (if vType vote = PrevoteType then Returns stepPrevote
      else if vType vote = PrecommitType then Returns stepPrecommit
      else Panics (PanicMsg ''Unknown vote type''))"

subsection \<open>Save, LoadSignState, LoadOrCreateSignState\<close>

text \<open>The zero value \<open>SignState{}\<close>.\<close>

definition emptySignState :: SignState where
  "emptySignState = \<lparr>Height = 0, Round = 0, Step = 0, EphemeralPublic = None,
     Signature = None, SignBytes = None, filePath = ''''\<rparr>"

text \<open>The permission bits \<open>0600\<close> (octal).\<close>

definition perm0600 :: nat where "perm0600 = 6 * 8 * 8"

text \<open>\<open>SignState.Save\<close> returns the file system after the write, or panics.\<close>

definition Save :: "Codec \<Rightarrow> 'fs OS \<Rightarrow> SignState \<Rightarrow> 'fs \<Rightarrow> 'fs outcome" where
  "Save cdc os signState fs =
     (let outFile = filePath signState in
      if outFile = '''' then Panics (PanicMsg ''cannot save SignState: filePath not set'')
      else
        (case MarshalJSONIndent cdc signState of
           (_, Some err) \<Rightarrow> Panics (PanicErr err)
         | (jsonBytes, None) \<Rightarrow>
             (case WriteFileAtomic os fs outFile jsonBytes perm0600 of
                Inl err \<Rightarrow> Panics (PanicErr err)
              | Inr fs' \<Rightarrow> Returns fs')))"

definition LoadSignState :: "Codec \<Rightarrow> 'fs OS \<Rightarrow> 'fs \<Rightarrow> string \<Rightarrow> SignState \<times> error option" where
  "LoadSignState cdc os fs filepath =
     (let state = emptySignState in
      case ReadFile os fs filepath of
        Inl err \<Rightarrow> (state, Some err)
      | Inr stateJSONBytes \<Rightarrow>
          (case UnmarshalJSON cdc stateJSONBytes state of
             (state', Some err) \<Rightarrow> (state', Some err)
           | (state', None) \<Rightarrow> (state'\<lparr>filePath := filepath\<rparr>, None)))"

text \<open>
  \<open>LoadOrCreateSignState\<close> returns the state, the error and the file system it
  leaves behind, or panics (inside \<open>Save\<close>).
\<close>

definition LoadOrCreateSignState ::
    "Codec \<Rightarrow> 'fs OS \<Rightarrow> 'fs \<Rightarrow> string \<Rightarrow> (SignState \<times> error option \<times> 'fs) outcome" where
  "LoadOrCreateSignState cdc os fs filepath =
     (case LoadSignState cdc os fs filepath of
        (existing, None) \<Rightarrow> Returns (existing, None, fs)
      | (_, Some _) \<Rightarrow>
          (let state = emptySignState\<lparr>filePath := filepath\<rparr> in
           case Save cdc os state fs of
             Panics p \<Rightarrow> Panics p
           | Returns fs' \<Rightarrow> Returns (state, None, fs')))"

subsection \<open>The atomic write\<close>

text \<open>
  Modelled from the spec: \<open>tempfile.WriteFileAtomic\<close> is Tendermint's and not among
  the sources. The specification asks for a write-then-fsync-then-rename sequence
  through a temporary file, with the permission bits given. The model works on a
  disk that maps a path to the content and permission bits of the file there, and
  returns the disk states the call goes through, in order, with its error: the
  temporary file is created empty and exclusively under a fresh name beside the
  target (the target's name with a suffix), the data is written to it, it is
  synced, and it is renamed onto the target; when a step fails the temporary file
  is removed and the error returned. A \<open>fault\<close> says which step fails in the
  call, if any; \<open>WriteFails n\<close> is a write that stops after \<open>n\<close> bytes. A process
  that dies during the call leaves one of the states of the sequence.
\<close>

type_synonym disk = "string \<Rightarrow> (bytes \<times> nat) option"

datatype fault = NoFault | CreateFails | WriteFails nat | SyncFails | RenameFails

definition contents :: "slice \<Rightarrow> bytes" where
  "contents data = (case data of None \<Rightarrow> [] | Some bs \<Rightarrow> bs)"

definition tempName :: "string \<Rightarrow> string \<Rightarrow> string" where
  "tempName filename suffix = filename @ CHR ''.'' # suffix"

definition tempfile_WriteFileAtomic ::
    "fault \<Rightarrow> string \<Rightarrow> disk \<Rightarrow> string \<Rightarrow> slice \<Rightarrow> nat \<Rightarrow> disk list \<times> error option" where
  "tempfile_WriteFileAtomic f suffix d filename data perm =
     (let tmp = tempName filename suffix;
          created = d(tmp \<mapsto> ([], perm));
          written = d(tmp \<mapsto> (contents data, perm));
          removed = d(tmp := None)
      in
      if f = CreateFails \<or> d tmp \<noteq> None then
        ([d], Some (LibError ''could not create atomic write file''))
      else
        (case f of
           WriteFails n \<Rightarrow>
             ([d, created, d(tmp \<mapsto> (take n (contents data), perm)), removed],
              Some (LibError ''short write''))
         | SyncFails \<Rightarrow> ([d, created, written, removed], Some (LibError ''sync failed''))
         | RenameFails \<Rightarrow>
             ([d, created, written, written, removed], Some (LibError ''rename failed''))
         | _ \<Rightarrow>
             ([d, created, written, written, removed(filename \<mapsto> (contents data, perm))],
              None)))"

text \<open>
  The file system \<open>Save\<close> and \<open>LoadSignState\<close> run on when the write is the one
  above: \<open>ReadFile\<close> returns the content at the path, and \<open>WriteFileAtomic\<close>
  returns the last state of the sequence, or the error.
\<close>

definition atomicOS :: "fault \<Rightarrow> string \<Rightarrow> disk OS" where
  "atomicOS f suffix =
     \<lparr>ReadFile = (\<lambda>d path.
         case d path of
           None \<Rightarrow> Inl (LibError ''no such file or directory'')
         | Some (content, perm) \<Rightarrow> Inr (Some content)),
      WriteFileAtomic = (\<lambda>d filename data perm.
         case tempfile_WriteFileAtomic f suffix d filename data perm of
           (states, Some err) \<Rightarrow> Inl err
         | (states, None) \<Rightarrow> Inr (last states))\<rparr>"

text \<open>
  The disk states a call of \<open>Save\<close> goes through. \<open>Save\<close> touches the file system
  only in its call of \<open>WriteFileAtomic\<close>: before it, and when \<open>Save\<close> panics
  without reaching it, the disk is the one \<open>Save\<close> was called on.
\<close>

definition Save_observed :: "Codec \<Rightarrow> fault \<Rightarrow> string \<Rightarrow> SignState \<Rightarrow> disk \<Rightarrow> disk list" where
  "Save_observed cdc f suffix signState d =
     (let outFile = filePath signState in
      if outFile = '''' then [d]
      else
        (case MarshalJSONIndent cdc signState of
           (_, Some err) \<Rightarrow> [d]
         | (jsonBytes, None) \<Rightarrow>
             fst (tempfile_WriteFileAtomic f suffix d outFile jsonBytes perm0600)))"

subsection \<open>OnlyDifferByTimestamp\<close>

text \<open>\<open>now\<close> is the value \<open>tmtime.Now()\<close> returns in the call.\<close>

definition checkVoteOnlyDifferByTimestamp ::
    "Codec \<Rightarrow> Time \<Rightarrow> slice \<Rightarrow> slice \<Rightarrow> (Time \<times> bool) outcome" where
  "checkVoteOnlyDifferByTimestamp cdc now lastSignBytes newSignBytes =
     (case UnmarshalVote cdc lastSignBytes of
        Inl err \<Rightarrow> Panics (PanicFmt ''LastSignBytes cannot be unmarshalled into vote: '' err)
      | Inr lastVote \<Rightarrow>
          (case UnmarshalVote cdc newSignBytes of
             Inl err \<Rightarrow> Panics (PanicFmt ''signBytes cannot be unmarshalled into vote: '' err)
           | Inr newVote \<Rightarrow>
               (let lastTime = vTimestamp lastVote;
                    lastVoteBytes = fst (MarshalJSONVote cdc (lastVote\<lparr>vTimestamp := now\<rparr>));
                    newVoteBytes = fst (MarshalJSONVote cdc (newVote\<lparr>vTimestamp := now\<rparr>))
                in Returns (lastTime, bytes_Equal newVoteBytes lastVoteBytes))))"

definition checkProposalOnlyDifferByTimestamp ::
    "Codec \<Rightarrow> Time \<Rightarrow> slice \<Rightarrow> slice \<Rightarrow> (Time \<times> bool) outcome" where
  "checkProposalOnlyDifferByTimestamp cdc now lastSignBytes newSignBytes =
     (case UnmarshalProposal cdc lastSignBytes of
        Inl err \<Rightarrow> Panics (PanicFmt ''LastSignBytes cannot be unmarshalled into proposal: '' err)
      | Inr lastProposal \<Rightarrow>
          (case UnmarshalProposal cdc newSignBytes of
             Inl err \<Rightarrow> Panics (PanicFmt ''signBytes cannot be unmarshalled into proposal: '' err)
           | Inr newProposal \<Rightarrow>
               (let lastTime = pTimestamp lastProposal;
                    lastProposalBytes = fst (MarshalProposal cdc (lastProposal\<lparr>pTimestamp := now\<rparr>));
                    newProposalBytes = fst (MarshalProposal cdc (newProposal\<lparr>pTimestamp := now\<rparr>))
                in Returns (lastTime, bytes_Equal newProposalBytes lastProposalBytes))))"

definition OnlyDifferByTimestamp ::
    "Codec \<Rightarrow> Time \<Rightarrow> SignState \<Rightarrow> slice \<Rightarrow> (Time \<times> bool) outcome" where
  "OnlyDifferByTimestamp cdc now signState signBytes =
     (if Step signState = stepPropose then
        checkProposalOnlyDifferByTimestamp cdc now (SignBytes signState) signBytes
      else if Step signState = stepPrevote \<or> Step signState = stepPrecommit then
        checkVoteOnlyDifferByTimestamp cdc now (SignBytes signState) signBytes
      else Returns (zeroTime, False))"

section \<open>Serialization: UnpackHRS\<close>

definition UnpackHRS :: "Codec \<Rightarrow> slice \<Rightarrow> (int64 \<times> int64 \<times> int8 \<times> error option) outcome" where
  "UnpackHRS cdc signBytes =
     (case UnmarshalProposal cdc signBytes of
        Inr proposal \<Rightarrow> Returns (pHeight proposal, pRound proposal, stepPropose, None)
      | Inl _ \<Rightarrow>
          (case UnmarshalVote cdc signBytes of
             Inr vote \<Rightarrow>
               (case CanonicalVoteToStep vote of
                  Panics p \<Rightarrow> Panics p
                | Returns step \<Rightarrow> Returns (vHeight vote, vRound vote, step, None))
           | Inl _ \<Rightarrow> Returns (0, 0, 0, Some CouldNotUnpackHRS)))"

text \<open>
  The inspector as the specification words it, for comparison with \<open>UnpackHRS\<close>:
  the bytes are tried as a canonical vote first and as a canonical proposal only
  if that fails.
\<close>

definition UnpackHRS_voteFirst ::
    "Codec \<Rightarrow> slice \<Rightarrow> (int64 \<times> int64 \<times> int8 \<times> error option) outcome" where
  "UnpackHRS_voteFirst cdc signBytes =
     (case UnmarshalVote cdc signBytes of
        Inr vote \<Rightarrow>
          (case CanonicalVoteToStep vote of
             Panics p \<Rightarrow> Panics p
           | Returns step \<Rightarrow> Returns (vHeight vote, vRound vote, step, None))
      | Inl _ \<Rightarrow>
          (case UnmarshalProposal cdc signBytes of
             Inr proposal \<Rightarrow> Returns (pHeight proposal, pRound proposal, stepPropose, None)
           | Inl _ \<Rightarrow> Returns (0, 0, 0, Some CouldNotUnpackHRS)))"

section \<open>RemoteSigner.go\<close>

text \<open>
  The messages of Tendermint's \<open>privval\<close> package. \<open>handleRequest\<close> switches on the
  request's dynamic type: four request types and a default branch for any other
  message, which \<open>OtherRequest\<close> stands for, carrying the text \<open>%v\<close> prints for it.
  Public keys, votes and proposals are only passed along, so their types are
  parameters. A nil pointer or interface value in a response is \<open>None\<close>.
\<close>

record RemoteSignerError =
  Code :: int
  Description :: string

datatype ('vote, 'prop) SignerRequest =
    PubKeyRequest
  | SignVoteRequest 'vote
  | SignProposalRequest 'prop
  | PingRequest
  | OtherRequest string

datatype ('pk, 'vote, 'prop) SignerResponse =
    PubKeyResponse "'pk option" "RemoteSignerError option"
  | SignedVoteResponse "'vote option" "RemoteSignerError option"
  | SignedProposalResponse "'prop option" "RemoteSignerError option"
  | PingResponse

text \<open>
  \<open>types.PrivValidator\<close> is an interface; what its three methods do in a call
  is a parameter. \<open>SignVote\<close> and \<open>SignProposal\<close> sign in place through a pointer,
  so the model has them return the vote or proposal as they leave it.
\<close>

record ('pk, 'vote, 'prop) PrivValidator =
  GetPubKey :: "'pk option \<times> error option"
  SignVote :: "string \<Rightarrow> 'vote \<Rightarrow> 'vote \<times> error option"
  SignProposal :: "string \<Rightarrow> 'prop \<Rightarrow> 'prop \<times> error option"

text \<open>
  The fields of \<open>ReconnRemoteSigner\<close> that \<open>handleRequest\<close> reads. Logging has no
  effect on the result and is left out.
\<close>

record ('pk, 'vote, 'prop) ReconnRemoteSigner =
  address :: string
  chainID :: string
  privVal :: "('pk, 'vote, 'prop) PrivValidator"

text \<open>
  In the \<open>PubKeyRequest\<close> case \<open>pubKey, err := ...\<close> declares a new \<open>err\<close>, so the
  function's own \<open>err\<close> stays nil there; the two signing cases assign to it.
\<close>

definition handleRequest ::
    "('pk, 'vote, 'prop) ReconnRemoteSigner \<Rightarrow> ('vote, 'prop) SignerRequest
       \<Rightarrow> ('pk, 'vote, 'prop) SignerResponse option \<times> error option" where
  "handleRequest rs req =
     (case req of
        PubKeyRequest \<Rightarrow>
          (case GetPubKey (privVal rs) of
             (_, Some err) \<Rightarrow>
               (Some (PubKeyResponse None (Some \<lparr>Code = 0, Description = Error err\<rparr>)), None)
           | (pubKey, None) \<Rightarrow> (Some (PubKeyResponse pubKey None), None))
      | SignVoteRequest vote \<Rightarrow>
          (case SignVote (privVal rs) (chainID rs) vote of
             (_, Some err) \<Rightarrow>
               (Some (SignedVoteResponse None (Some \<lparr>Code = 0, Description = Error err\<rparr>)),
                Some err)
           | (vote', None) \<Rightarrow> (Some (SignedVoteResponse (Some vote') None), None))
      | SignProposalRequest proposal \<Rightarrow>
          (case SignProposal (privVal rs) (chainID rs) proposal of
             (_, Some err) \<Rightarrow>
               (Some (SignedProposalResponse None (Some \<lparr>Code = 0, Description = Error err\<rparr>)),
                Some err)
           | (proposal', None) \<Rightarrow> (Some (SignedProposalResponse (Some proposal') None), None))
      | PingRequest \<Rightarrow> (Some PingResponse, None)
      | OtherRequest shown \<Rightarrow> (None, Some (UnknownMsg shown)))"

text \<open>
  The tail of one iteration of \<open>loop\<close>, from \<open>ReadMsg\<close> to the end of the body,
  entered with an open connection \<open>conn\<close>. \<open>readMsg\<close> is what \<open>ReadMsg(conn)\<close>
  returns in this iteration and \<open>writeMsg res\<close> what \<open>WriteMsg(conn, res)\<close> returns.
  The result is the loop variable \<open>conn\<close> after the iteration (\<open>None\<close> is nil,
  which makes the next iteration dial again) and the connections closed in it.
\<close>

definition loopServe ::
    "('pk, 'vote, 'prop) ReconnRemoteSigner \<Rightarrow> 'conn \<Rightarrow> error + ('vote, 'prop) SignerRequest
       \<Rightarrow> (('pk, 'vote, 'prop) SignerResponse option \<Rightarrow> error option)
       \<Rightarrow> 'conn option \<times> 'conn list" where
  "loopServe rs conn readMsg writeMsg =
     (case readMsg of
        Inl err \<Rightarrow> (None, [conn])
      | Inr req \<Rightarrow>
          (let (res, err) = handleRequest rs req in
           case writeMsg res of
             Some err \<Rightarrow> (None, [conn])
           | None \<Rightarrow> (Some conn, [])))"

text \<open>The structured error a response carries, if any.\<close>

definition responseError :: "('pk, 'vote, 'prop) SignerResponse \<Rightarrow> RemoteSignerError option" where
  "responseError res =
     (case res of
        PubKeyResponse _ e \<Rightarrow> e
      | SignedVoteResponse _ e \<Rightarrow> e
      | SignedProposalResponse _ e \<Rightarrow> e
      | PingResponse \<Rightarrow> None)"

section \<open>The cosigner key file\<close>

text \<open>
  \<open>rsa.PublicKey\<close> and \<open>rsa.PrivateKey\<close> are Go's (the cache of precomputed values
  is not a part of the key and is left out). A \<open>crypto.PubKey\<close> is an interface
  value: an Ed25519 key or a key of some other named type; \<open>None\<close> is the nil
  interface. The peer list \<open>[]*rsa.PublicKey\<close> is a list of pointers, \<open>None\<close> a nil
  pointer; the package only ranges over, measures and indexes the list, so a nil
  and an empty list are the same list here. \<open>ID\<close> is a Go \<open>int\<close>, which the
  package only compares and decrements after checking it is at least 1.
\<close>

record rsa_PublicKey =
  rsaN :: int
  rsaE :: int

record rsa_PrivateKey =
  PublicKey :: rsa_PublicKey
  rsaD :: int
  rsaPrimes :: "int list"

datatype crypto_PubKey = PubKeyEd25519 bytes | PubKeyOther string bytes

record CosignerKey =
  PubKey :: "crypto_PubKey option"
  ShareKey :: slice
  RSAKey :: rsa_PrivateKey
  ID :: int
  CosignerKeys :: "rsa_PublicKey option list"

text \<open>
  The anonymous struct both methods hand to \<open>encoding/json\<close>: three byte fields
  that shadow the JSON names \<open>rsa_key\<close>, \<open>pub_key\<close> and \<open>rsa_pubs\<close>, and the
  embedded pointer \<open>*Alias\<close> to the key itself.
\<close>

record aux =
  aux_RSAKey :: slice
  aux_Pubkey :: slice
  aux_CosignerKeys :: "slice list"
  Alias :: CosignerKey

text \<open>
  The library calls are parameters. From \<open>crypto/x509\<close>: the two PKCS#1 encoders,
  which return bytes or panic (on a nil pointer, on a key without primes), and
  the two parsers. From \<open>encoding/json\<close>: \<open>Marshal\<close> on the struct above, and
  \<open>Unmarshal\<close> into a given struct, which returns the struct as it leaves it.
\<close>

record Libs =
  MarshalPKCS1PrivateKey :: "rsa_PrivateKey \<Rightarrow> slice outcome"
  MarshalPKCS1PublicKey :: "rsa_PublicKey option \<Rightarrow> slice outcome"
  ParsePKCS1PrivateKey :: "slice \<Rightarrow> error + rsa_PrivateKey"
  ParsePKCS1PublicKey :: "slice \<Rightarrow> error + rsa_PublicKey"
  json_Marshal :: "aux \<Rightarrow> slice \<times> error option"
  json_Unmarshal :: "slice \<Rightarrow> aux \<Rightarrow> aux \<times> error option"

text \<open>
  The validator public key is encoded in one of two ways. The first version of the
  file goes through Tendermint's protobuf type (\<open>PubKeyToProto\<close>, \<open>Marshal\<close>,
  \<open>Unmarshal\<close>, \<open>PubKeyFromProto\<close>); the second through the amino codec
  (\<open>cdc.MarshalBinaryBare\<close> on the interface value, \<open>cdc.UnmarshalBinaryBare\<close> into
  a \<open>PubKeyEd25519\<close>).
\<close>

record 'proto ProtoLib =
  PubKeyToProto :: "crypto_PubKey option \<Rightarrow> error + 'proto"
  proto_Marshal :: "'proto \<Rightarrow> slice \<times> error option"
  proto_Unmarshal :: "slice \<Rightarrow> error + 'proto"
  PubKeyFromProto :: "'proto \<Rightarrow> error + crypto_PubKey option"

record AminoLib =
  MarshalBinaryBare :: "crypto_PubKey option \<Rightarrow> slice \<times> error option"
  UnmarshalBinaryBareEd25519 :: "slice \<Rightarrow> error + bytes"

definition encodeProto :: "'proto ProtoLib \<Rightarrow> crypto_PubKey option \<Rightarrow> error + slice" where
  "encodeProto P pubKey =
     (case PubKeyToProto P pubKey of
        Inl err \<Rightarrow> Inl err
      | Inr protoPubkey \<Rightarrow>
          (case proto_Marshal P protoPubkey of
             (_, Some err) \<Rightarrow> Inl err
           | (protoBytes, None) \<Rightarrow> Inr protoBytes))"

definition decodeProto :: "'proto ProtoLib \<Rightarrow> slice \<Rightarrow> error + crypto_PubKey option" where
  "decodeProto P bz =
     (case proto_Unmarshal P bz of
        Inl err \<Rightarrow> Inl err
      | Inr protoPubkey \<Rightarrow> PubKeyFromProto P protoPubkey)"

definition encodeAmino :: "AminoLib \<Rightarrow> crypto_PubKey option \<Rightarrow> error + slice" where
  "encodeAmino A pubKey =
     (case MarshalBinaryBare A pubKey of
        (_, Some err) \<Rightarrow> Inl err
      | (pubkey, None) \<Rightarrow> Inr pubkey)"

definition decodeAmino :: "AminoLib \<Rightarrow> slice \<Rightarrow> error + crypto_PubKey option" where
  "decodeAmino A bz =
     (case UnmarshalBinaryBareEd25519 A bz of
        Inl err \<Rightarrow> Inl err
      | Inr pubkey \<Rightarrow> Inr (Some (PubKeyEd25519 pubkey)))"

text \<open>The loop over \<open>cosignerKey.CosignerKeys\<close> in \<open>MarshalJSON\<close>, appending to \<open>rsaPubKeysBytes\<close>.\<close>

fun marshalPubKeys :: "Libs \<Rightarrow> rsa_PublicKey option list \<Rightarrow> slice list \<Rightarrow> slice list outcome" where
  "marshalPubKeys L [] rsaPubKeysBytes = Returns rsaPubKeysBytes"
| "marshalPubKeys L (pubKey # rest) rsaPubKeysBytes =
     (case MarshalPKCS1PublicKey L pubKey of
        Panics p \<Rightarrow> Panics p
      | Returns publicBytes \<Rightarrow> marshalPubKeys L rest (rsaPubKeysBytes @ [publicBytes]))"

text \<open>
  The loop over \<open>aux.CosignerKeys\<close> in \<open>UnmarshalJSON\<close>, appending to the key's
  \<open>CosignerKeys\<close>; an error leaves the keys parsed so far.
\<close>

fun parsePubKeys ::
    "Libs \<Rightarrow> slice list \<Rightarrow> rsa_PublicKey option list \<Rightarrow> rsa_PublicKey option list \<times> error option" where
  "parsePubKeys L [] keys = (keys, None)"
| "parsePubKeys L (bz # rest) keys =
     (case ParsePKCS1PublicKey L bz of
        Inl err \<Rightarrow> (keys, Some err)
      | Inr cosignerRsaPubkey \<Rightarrow> parsePubKeys L rest (keys @ [Some cosignerRsaPubkey]))"

text \<open>
  \<open>MarshalJSON\<close> and \<open>UnmarshalJSON\<close>, over the way the public key is encoded; the
  two versions of the file differ in nothing else. \<open>UnmarshalJSON\<close> returns the
  receiver as the call leaves it, together with the error.
\<close>

definition MarshalJSON_with ::
    "Libs \<Rightarrow> (crypto_PubKey option \<Rightarrow> error + slice) \<Rightarrow> CosignerKey \<Rightarrow> (slice \<times> error option) outcome" where
  "MarshalJSON_with L encodePubKey cosignerKey =
     (case MarshalPKCS1PrivateKey L (RSAKey cosignerKey) of
        Panics p \<Rightarrow> Panics p
      | Returns privateBytes \<Rightarrow>
          (case marshalPubKeys L (CosignerKeys cosignerKey) [] of
             Panics p \<Rightarrow> Panics p
           | Returns rsaPubKeysBytes \<Rightarrow>
               (case encodePubKey (PubKey cosignerKey) of
                  Inl err \<Rightarrow> Returns (None, Some err)
                | Inr protoBytes \<Rightarrow>
                    Returns (json_Marshal L
                      \<lparr>aux_RSAKey = privateBytes, aux_Pubkey = protoBytes,
                       aux_CosignerKeys = rsaPubKeysBytes, Alias = cosignerKey\<rparr>))))"

definition UnmarshalJSON_with ::
    "Libs \<Rightarrow> (slice \<Rightarrow> error + crypto_PubKey option) \<Rightarrow> CosignerKey \<Rightarrow> slice
       \<Rightarrow> CosignerKey \<times> error option" where
  "UnmarshalJSON_with L decodePubKey cosignerKey data =
     (case json_Unmarshal L data
             \<lparr>aux_RSAKey = None, aux_Pubkey = None, aux_CosignerKeys = [], Alias = cosignerKey\<rparr> of
        (a, Some err) \<Rightarrow> (Alias a, Some err)
      | (a, None) \<Rightarrow>
          (case ParsePKCS1PrivateKey L (aux_RSAKey a) of
             Inl err \<Rightarrow> (Alias a, Some err)
           | Inr privateKey \<Rightarrow>
               (case decodePubKey (aux_Pubkey a) of
                  Inl err \<Rightarrow> (Alias a, Some err)
                | Inr pubkey \<Rightarrow>
                    (case parsePubKeys L (aux_CosignerKeys a) [] of
                       (keys, Some err) \<Rightarrow> ((Alias a)\<lparr>CosignerKeys := keys\<rparr>, Some err)
                     | (keys, None) \<Rightarrow>
                         ((Alias a)\<lparr>CosignerKeys := keys, RSAKey := privateKey, PubKey := pubkey\<rparr>,
                          None)))))"

definition MarshalJSON :: "'proto ProtoLib \<Rightarrow> Libs \<Rightarrow> CosignerKey \<Rightarrow> (slice \<times> error option) outcome" where
  "MarshalJSON P L cosignerKey = MarshalJSON_with L (encodeProto P) cosignerKey"

definition UnmarshalJSON_key ::
    "'proto ProtoLib \<Rightarrow> Libs \<Rightarrow> CosignerKey \<Rightarrow> slice \<Rightarrow> CosignerKey \<times> error option" where
  "UnmarshalJSON_key P L cosignerKey data = UnmarshalJSON_with L (decodeProto P) cosignerKey data"

definition MarshalJSON_amino :: "AminoLib \<Rightarrow> Libs \<Rightarrow> CosignerKey \<Rightarrow> (slice \<times> error option) outcome" where
  "MarshalJSON_amino A L cosignerKey = MarshalJSON_with L (encodeAmino A) cosignerKey"

definition UnmarshalJSON_key_amino ::
    "AminoLib \<Rightarrow> Libs \<Rightarrow> CosignerKey \<Rightarrow> slice \<Rightarrow> CosignerKey \<times> error option" where
  "UnmarshalJSON_key_amino A L cosignerKey data = UnmarshalJSON_with L (decodeAmino A) cosignerKey data"

text \<open>The zero value \<open>CosignerKey{}\<close>.\<close>

definition emptyCosignerKey :: CosignerKey where
  "emptyCosignerKey =
     \<lparr>PubKey = None, ShareKey = None,
      RSAKey = \<lparr>PublicKey = \<lparr>rsaN = 0, rsaE = 0\<rparr>, rsaD = 0, rsaPrimes = []\<rparr>,
      ID = 0, CosignerKeys = []\<rparr>"

text \<open>
  \<open>LoadCosignerKey\<close>. \<open>json.Unmarshal(keyJSONBytes, &pvKey)\<close> runs the key's own
  \<open>UnmarshalJSON\<close> method on the zero-valued key; \<open>unmarshalKey\<close> is that method, in
  either version.
\<close>

definition LoadCosignerKey ::
    "(CosignerKey \<Rightarrow> slice \<Rightarrow> CosignerKey \<times> error option) \<Rightarrow> 'fs OS \<Rightarrow> 'fs \<Rightarrow> string
       \<Rightarrow> CosignerKey \<times> error option" where
  "LoadCosignerKey unmarshalKey os fs file =
     (let pvKey = emptyCosignerKey in
      case ReadFile os fs file of
        Inl err \<Rightarrow> (pvKey, Some err)
      | Inr keyJSONBytes \<Rightarrow>
          (case unmarshalKey pvKey keyJSONBytes of
             (pvKey', Some err) \<Rightarrow> (pvKey', Some err)
           | (pvKey', None) \<Rightarrow> (pvKey', None)))"

section \<open>cmd/signer/main.go\<close>

text \<open>
  Modelled from the spec: the \<open>Config\<close> struct that \<open>signer.LoadConfigFromFile\<close>
  returns is declared in a file of the package that is not among the sources. Its
  fields are the options the specification lists and \<open>main\<close> reads: the mode, the
  key file, the state directory, the chain id, the cosigner threshold and listen
  address, the remote cosigners (id and address) and the nodes (address).
\<close>

record CosignerConfig =
  cosigner_ID :: int
  cosigner_Address :: string

record NodeConfig =
  node_Address :: string

record Config =
  Mode :: string
  PrivValKeyFile :: string
  PrivValStateDir :: string
  ChainID :: string
  CosignerThreshold :: int
  ListenAddress :: string
  Cosigners :: "CosignerConfig list"
  Nodes :: "NodeConfig list"

record CosignerPeer =
  peer_ID :: int
  peer_PublicKey :: rsa_PublicKey

text \<open>
  How a run of \<open>main\<close> ends: the process exits with status 1 after printing a
  message (\<open>log.Fatal\<close>, or Tendermint's key loader giving up), it panics, or it
  reaches \<open>wg.Wait()\<close> and serves. With the ending comes the list of services
  started up to then, in order: the cosigner RPC server (by listen address) and
  one reconnecting remote signer per node (by node address).
\<close>

datatype ending = Exit string | Panic panic | Wait

datatype service = CosignerRpcServer string | RemoteSignerService string

text \<open>What \<open>os.Stat\<close> reports: the file and whether it is a directory, that it does not exist, or another error.\<close>

datatype stat = StatInfo bool | StatNotExist | StatError

text \<open>
  What \<open>main\<close> takes from outside the package: the \<open>--config\<close> flag, the
  configuration loader, \<open>os.Stat\<close>, \<open>path.Join\<close>, Tendermint's two loaders of a
  file validator (\<open>Some\<close> message when the loader ends the process), and the start
  of the reconnecting remote signer for a node address.
\<close>

record MainEnv =
  flag_config :: string
  LoadConfigFromFile :: "string \<Rightarrow> error + Config"
  Stat :: "string \<Rightarrow> stat"
  path_Join :: "string \<Rightarrow> string \<Rightarrow> string"
  LoadFilePV :: "string \<Rightarrow> string \<Rightarrow> string option"
  LoadFilePVEmptyState :: "string \<Rightarrow> string \<Rightarrow> string option"
  StartSigner :: "string \<Rightarrow> error option"

text \<open>\<open>fileExists\<close>: on an error other than non-existence \<open>info\<close> is nil and \<open>info.IsDir()\<close> panics.\<close>

definition fileExists :: "(string \<Rightarrow> stat) \<Rightarrow> string \<Rightarrow> bool outcome" where
  "fileExists osStat filename =
     (case osStat filename of
        StatNotExist \<Rightarrow> Returns False
      | StatInfo isDir \<Rightarrow> Returns (\<not> isDir)
      | StatError \<Rightarrow> Panics (PanicMsg ''invalid memory address or nil pointer dereference''))"

text \<open>
  The loop over \<open>config.Cosigners\<close>: each remote cosigner's id must lie between 1
  and the number of peer keys, and its peer entry takes the key at index id - 1
  (a nil pointer there panics when it is dereferenced).
\<close>

fun cosignerPeers ::
    "CosignerKey \<Rightarrow> CosignerConfig list \<Rightarrow> CosignerPeer list \<Rightarrow> ending + CosignerPeer list" where
  "cosignerPeers key [] peers = Inr peers"
| "cosignerPeers key (cosignerConfig # rest) peers =
     (if cosigner_ID cosignerConfig < 1
         \<or> cosigner_ID cosignerConfig > int (length (CosignerKeys key)) then
        Inl (Exit (''Unexpected cosigner ID '' @ fmtInt (cosigner_ID cosignerConfig)))
      else
        (case CosignerKeys key ! nat (cosigner_ID cosignerConfig - 1) of
           None \<Rightarrow> Inl (Panic (PanicMsg ''invalid memory address or nil pointer dereference''))
         | Some pubKey \<Rightarrow>
             cosignerPeers key rest
               (peers @ [\<lparr>peer_ID = cosigner_ID cosignerConfig, peer_PublicKey = pubKey\<rparr>])))"

text \<open>The loop over \<open>config.Nodes\<close>: a signer that fails to start panics.\<close>

fun startSigners :: "(string \<Rightarrow> error option) \<Rightarrow> NodeConfig list \<Rightarrow> service list \<Rightarrow> ending \<times> service list" where
  "startSigners start [] services = (Wait, services)"
| "startSigners start (node # rest) services =
     (case start (node_Address node) of
        Some err \<Rightarrow> (Panic (PanicErr err), services)
      | None \<Rightarrow> startSigners start rest (services @ [RemoteSignerService (node_Address node)]))"

text \<open>
  \<open>main\<close>, up to \<open>wg.Wait()\<close>. The validators, cosigners and the RPC server are
  built from the values checked here and built without failing; the file system
  after the run is not part of the result.
\<close>

definition main ::
    "Codec \<Rightarrow> 'fs OS \<Rightarrow> (CosignerKey \<Rightarrow> slice \<Rightarrow> CosignerKey \<times> error option) \<Rightarrow> MainEnv \<Rightarrow> 'fs
       \<Rightarrow> ending \<times> service list" where
  "main cdc os unmarshalKey env fs =
     (if flag_config env = '''' then (Panic (PanicMsg ''--config flag is required''), [])
      else
        (case LoadConfigFromFile env (flag_config env) of
           Inl err \<Rightarrow> (Exit (Error err), [])
         | Inr config \<Rightarrow>
             (if ChainID config = '''' then (Exit ''chain_id option is required'', [])
              else if Mode config = ''single'' then
                (let stateFile = path_Join env (PrivValStateDir config)
                                   (ChainID config @ ''_priv_validator_state.json'') in
                 case fileExists (Stat env) stateFile of
                   Panics p \<Rightarrow> (Panic p, [])
                 | Returns exists \<Rightarrow>
                     (case (if exists then LoadFilePV env else LoadFilePVEmptyState env)
                             (PrivValKeyFile config) stateFile of
                        Some msg \<Rightarrow> (Exit msg, [])
                      | None \<Rightarrow> startSigners (StartSigner env) (Nodes config) []))
              else if Mode config = ''mpc'' then
                (if CosignerThreshold config = 0 then
                   (Exit ''The `cosigner_threshold` option is required in `threshold` mode'', [])
                 else if ListenAddress config = '''' then
                   (Exit ''The cosigner_listen_address option is required in `threshold` mode'', [])
                 else
                   (case LoadCosignerKey unmarshalKey os fs (PrivValKeyFile config) of
                      (_, Some err) \<Rightarrow> (Panic (PanicErr err), [])
                    | (key, None) \<Rightarrow>
                        (let stateFile = path_Join env (PrivValStateDir config)
                                           (ChainID config @ ''_priv_validator_state.json'') in
                         case LoadOrCreateSignState cdc os fs stateFile of
                           Panics p \<Rightarrow> (Panic p, [])
                         | Returns (signState, Some err, fs1) \<Rightarrow> (Panic (PanicErr err), [])
                         | Returns (signState, None, fs1) \<Rightarrow>
                             (let shareStateFile = path_Join env (PrivValStateDir config)
                                                     (ChainID config @ ''_share_sign_state.json'') in
                              case LoadSignState cdc os fs1 shareStateFile of
                                (_, Some err) \<Rightarrow> (Panic (PanicErr err), [])
                              | (shareSignState, None) \<Rightarrow>
                                  (case cosignerPeers key (Cosigners config)
                                          [\<lparr>peer_ID = ID key,
                                            peer_PublicKey = PublicKey (RSAKey key)\<rparr>] of
                                     Inl stop \<Rightarrow> (stop, [])
                                   | Inr peers \<Rightarrow>
                                       startSigners (StartSigner env) (Nodes config)
                                         [CosignerRpcServer (ListenAddress config)])))))
              else (Exit (''Unsupported mode: '' @ Mode config), []))))"

text \<open>The process ended, by exit or panic, with no service started.\<close>

definition terminatedBeforeServing :: "ending \<times> service list \<Rightarrow> bool" where
  "terminatedBeforeServing run = (fst run \<noteq> Wait \<and> snd run = [])"

section \<open>A sample codec and file system\<close>

text \<open>
  Concrete values for the codec and file-system parameters, used to evaluate the
  functions above on concrete inputs. The sample wire format of a payload is four
  bytes (type, height, round, timestamp), with an optional fifth byte, the POL
  round, for a proposal; the sample state file holds height, round and step. The
  sample file system maps a path to the data and permission bits of the file.
\<close>

definition sampleUnmarshalVote :: "slice \<Rightarrow> error + CanonicalVote" where
  "sampleUnmarshalVote b =
     (case b of
        None \<Rightarrow> Inl (LibError ''EOF'')
      | Some bs \<Rightarrow>
          if length bs = 4 then
            Inr \<lparr>vType = bs ! 0, vHeight = ucast (bs ! 1), vRound = ucast (bs ! 2),
                 vBlockID = [], vTimestamp = uint (bs ! 3), vChainID = ''chain''\<rparr>
          else Inl (LibError ''unexpected length''))"

definition sampleUnmarshalProposal :: "slice \<Rightarrow> error + CanonicalProposal" where
  "sampleUnmarshalProposal b =
     (case b of
        None \<Rightarrow> Inl (LibError ''EOF'')
      | Some bs \<Rightarrow>
          if length bs = 4 \<or> length bs = 5 then
            Inr \<lparr>pType = bs ! 0, pHeight = ucast (bs ! 1), pRound = ucast (bs ! 2),
                 pPOLRound = (if length bs = 5 then ucast (bs ! 4) else 0),
                 pBlockID = [], pTimestamp = uint (bs ! 3), pChainID = ''chain''\<rparr>
          else Inl (LibError ''unexpected length''))"

definition sampleCodec :: Codec where
  "sampleCodec =
     \<lparr>UnmarshalVote = sampleUnmarshalVote,
      UnmarshalProposal = sampleUnmarshalProposal,
      MarshalJSONVote = (\<lambda>v. (Some [vType v, ucast (vHeight v), ucast (vRound v),
                                     word_of_int (vTimestamp v)], None)),
      MarshalProposal = (\<lambda>p. (Some [pType p, ucast (pHeight p), ucast (pRound p),
                                     word_of_int (pTimestamp p), ucast (pPOLRound p)], None)),
      MarshalJSONIndent = (\<lambda>st. (Some [ucast (Height st), ucast (Round st), Step st], None)),
      UnmarshalJSON = (\<lambda>b st.
         case b of
           None \<Rightarrow> (st, Some (LibError ''unexpected end of JSON input''))
         | Some bs \<Rightarrow>
             if length bs = 3 then
               (st\<lparr>Height := ucast (bs ! 0), Round := ucast (bs ! 1), Step := bs ! 2\<rparr>, None)
             else (st, Some (LibError ''invalid character'')))\<rparr>"

type_synonym sampleFS = "string \<Rightarrow> (slice \<times> nat) option"

definition sampleOS :: "sampleFS OS" where
  "sampleOS =
     \<lparr>ReadFile = (\<lambda>fs path.
         case fs path of
           None \<Rightarrow> Inl (LibError ''no such file or directory'')
         | Some (data, perm) \<Rightarrow> Inr data),
      WriteFileAtomic = (\<lambda>fs path data perm.
         if path = ''/'' then Inl (LibError ''is a directory'')
         else Inr (fs(path \<mapsto> (data, perm))))\<rparr>"

text \<open>
  Sample libraries for the key file. The sample PKCS#1 form of a key lists its
  numbers, one byte each; the sample public-key encodings put a tag byte before
  the key bytes (10 for protobuf; for amino 22 before an Ed25519 key and 33
  before any other); the sample JSON library knows one document,
  \<open>sampleKeyJSON\<close>, the form of the key it is given, whose public key encodes
  as \<open>pub\<close>. \<open>otherKey\<close> is \<open>sampleKey\<close> with a validator public key of another type.
\<close>

definition sampleKey :: CosignerKey where
  "sampleKey =
     \<lparr>PubKey = Some (PubKeyEd25519 [1, 2]), ShareKey = Some [9],
      RSAKey = \<lparr>PublicKey = \<lparr>rsaN = 33, rsaE = 3\<rparr>, rsaD = 7, rsaPrimes = [3, 11]\<rparr>,
      ID = 3,
      CosignerKeys = [Some \<lparr>rsaN = 35, rsaE = 5\<rparr>, Some \<lparr>rsaN = 33, rsaE = 3\<rparr>]\<rparr>"

definition otherKey :: CosignerKey where
  "otherKey = sampleKey\<lparr>PubKey := Some (PubKeyOther ''secp256k1'' [4, 5])\<rparr>"

definition sampleKeyJSON :: slice where
  "sampleKeyJSON = Some [123, 125]"

definition sampleAux :: "slice \<Rightarrow> CosignerKey \<Rightarrow> aux" where
  "sampleAux pub k =
     \<lparr>aux_RSAKey = Some [33, 3, 7, 3, 11], aux_Pubkey = pub,
      aux_CosignerKeys = [Some [35, 5], Some [33, 3]], Alias = k\<rparr>"

definition sampleLibs :: "slice \<Rightarrow> CosignerKey \<Rightarrow> Libs" where
  "sampleLibs pub key =
     \<lparr>MarshalPKCS1PrivateKey = (\<lambda>k.
         if length (rsaPrimes k) < 2 then Panics (PanicMsg ''index out of range'')
         else Returns (Some (word_of_int (rsaN (PublicKey k)) # word_of_int (rsaE (PublicKey k))
                 # word_of_int (rsaD k) # map word_of_int (rsaPrimes k)))),
      MarshalPKCS1PublicKey = (\<lambda>pk.
         case pk of
           None \<Rightarrow> Panics (PanicMsg ''invalid memory address or nil pointer dereference'')
         | Some k \<Rightarrow> Returns (Some [word_of_int (rsaN k), word_of_int (rsaE k)])),
      ParsePKCS1PrivateKey = (\<lambda>b.
         case b of
           None \<Rightarrow> Inl (LibError ''asn1: syntax error'')
         | Some bs \<Rightarrow>
             if length bs < 5 then Inl (LibError ''asn1: syntax error'')
             else Inr \<lparr>PublicKey = \<lparr>rsaN = uint (bs ! 0), rsaE = uint (bs ! 1)\<rparr>,
                       rsaD = uint (bs ! 2), rsaPrimes = map uint (drop 3 bs)\<rparr>),
      ParsePKCS1PublicKey = (\<lambda>b.
         case b of
           None \<Rightarrow> Inl (LibError ''asn1: syntax error'')
         | Some bs \<Rightarrow>
             if length bs = 2 then Inr \<lparr>rsaN = uint (bs ! 0), rsaE = uint (bs ! 1)\<rparr>
             else Inl (LibError ''asn1: syntax error'')),
      json_Marshal = (\<lambda>a.
         if a = sampleAux pub key then (sampleKeyJSON, None)
         else (None, Some (LibError ''json: unsupported value''))),
      json_Unmarshal = (\<lambda>data a.
         if data = sampleKeyJSON then
           (sampleAux pub ((Alias a)\<lparr>ShareKey := ShareKey key, ID := ID key\<rparr>), None)
         else (a, Some (LibError ''unexpected end of JSON input'')))\<rparr>"

definition sampleProto :: "bytes ProtoLib" where
  "sampleProto =
     \<lparr>PubKeyToProto = (\<lambda>pk.
         case pk of
           Some (PubKeyEd25519 b) \<Rightarrow> Inr b
         | _ \<Rightarrow> Inl (LibError ''toproto: key type is not supported'')),
      proto_Marshal = (\<lambda>b. (Some (10 # b), None)),
      proto_Unmarshal = (\<lambda>bz.
         case bz of
           None \<Rightarrow> Inl (LibError ''unexpected EOF'')
         | Some bs \<Rightarrow> if bs \<noteq> [] \<and> hd bs = 10 then Inr (tl bs) else Inl (LibError ''unexpected EOF'')),
      PubKeyFromProto = (\<lambda>b. Inr (Some (PubKeyEd25519 b)))\<rparr>"

definition sampleAmino :: AminoLib where
  "sampleAmino =
     \<lparr>MarshalBinaryBare = (\<lambda>pk.
         case pk of
           Some (PubKeyEd25519 b) \<Rightarrow> (Some (22 # b), None)
         | Some (PubKeyOther name b) \<Rightarrow> (Some (33 # b), None)
         | None \<Rightarrow> (None, Some (LibError ''unregistered concrete type''))),
      UnmarshalBinaryBareEd25519 = (\<lambda>bz.
         case bz of
           None \<Rightarrow> Inl (LibError ''unexpected EOF'')
         | Some bs \<Rightarrow> if bs \<noteq> [] \<and> hd bs = 22 then Inr (tl bs) else Inl (LibError ''unexpected EOF''))\<rparr>"

text \<open>
  A sample configuration (mpc mode, two remote cosigners, one node) and a sample
  environment that loads a given configuration from \<open>config.toml\<close>; the sample
  file system \<open>sampleDisk\<close> holds the key file and the share state.
\<close>

definition sampleConfig :: Config where
  "sampleConfig =
     \<lparr>Mode = ''mpc'', PrivValKeyFile = ''key.json'', PrivValStateDir = ''state'',
      ChainID = ''chain'', CosignerThreshold = 2, ListenAddress = ''tcp://0.0.0.0:1234'',
      Cosigners = [\<lparr>cosigner_ID = 1, cosigner_Address = ''tcp://peer1:1234''\<rparr>,
                   \<lparr>cosigner_ID = 2, cosigner_Address = ''tcp://peer2:1234''\<rparr>],
      Nodes = [\<lparr>node_Address = ''tcp://node:1234''\<rparr>]\<rparr>"

definition sampleEnv :: "Config \<Rightarrow> MainEnv" where
  "sampleEnv config =
     \<lparr>flag_config = ''config.toml'',
      LoadConfigFromFile = (\<lambda>file.
         if file = ''config.toml'' then Inr config
         else Inl (LibError ''no such file or directory'')),
      Stat = (\<lambda>file. StatNotExist),
      path_Join = (\<lambda>dir file. dir @ ''/'' @ file),
      LoadFilePV = (\<lambda>keyFile stateFile. None),
      LoadFilePVEmptyState = (\<lambda>keyFile stateFile. None),
      StartSigner = (\<lambda>address. None)\<rparr>"

definition sampleDisk :: sampleFS where
  "sampleDisk =
     [''key.json'' \<mapsto> (sampleKeyJSON, 384),
      ''state/chain_share_sign_state.json'' \<mapsto> (Some [10, 0, 2], 384)]"

section \<open>Properties of CheckHRS\<close>

lemma sint_eq_iff: "sint (v::'a::len word) = sint w \<longleftrightarrow> v = w"
  by (simp add: word_eq_iff_signed [where ?'a=int])

lemma hrs_eq_iff: "hrs h r s = hrs h' r' s' \<longleftrightarrow> h = h' \<and> r = r' \<and> s = s'"
  by (simp add: hrs_def sint_eq_iff)

lemma hrs_less_iff:
  "hrs h r s < hrs h' r' s' \<longleftrightarrow>
     h <s h' \<or> (h = h' \<and> (r <s r' \<or> (r = r' \<and> s <s s')))"
  by (simp add: hrs_def word_sless_alt less_prod_def' sint_eq_iff)

lemma CheckHRS_less:
  "hrs h r s < stored S \<Longrightarrow> \<exists>e. CheckHRS S h r s = Returns (False, Some e)"
  by (auto simp: stored_def hrs_less_iff CheckHRS_def)

lemma CheckHRS_greater:
  "stored S < hrs h r s \<Longrightarrow> CheckHRS S h r s = Returns (False, None)"
  by (auto simp: stored_def hrs_less_iff CheckHRS_def dest: signed.less_asym)

lemma CheckHRS_equal:
  "hrs h r s = stored S \<Longrightarrow>
   CheckHRS S h r s =
     (if SignBytes S \<noteq> None then
        (if Signature S = None then
           Panics (PanicMsg ''pv: Signature is nil but SignBytes is not!'')
         else Returns (True, None))
      else Returns (False, Some NoSignBytesFound))"
  by (auto simp: stored_def hrs_eq_iff CheckHRS_def)

lemma len_pos_iff: "b \<noteq> Some [] \<Longrightarrow> 0 < len b \<longleftrightarrow> b \<noteq> None"
  by (cases b) (simp_all add: len_def)

text \<open>
  C1 (amended). For a stored state whose \<open>SignBytes\<close> is nil or has at least one
  byte, and every requested (h, r, s): \<open>CheckHRS\<close> returns an error exactly when
  the request is lexicographically below the stored triple, or equal to it with
  empty \<open>SignBytes\<close>; it returns \<open>(true, nil)\<close> exactly when the triples are equal,
  \<open>SignBytes\<close> is non-empty and \<open>Signature\<close> is not nil; it panics exactly when
  the triples are equal, \<open>SignBytes\<close> is non-empty and \<open>Signature\<close> is nil; and it
  returns \<open>(false, nil)\<close> exactly when the request is above the stored triple.
\<close>

theorem CheckHRS_trichotomy:
  assumes "SignBytes S \<noteq> Some []"
  shows "(isRegression (CheckHRS S h r s) \<longleftrightarrow>
            hrs h r s < stored S \<or> (hrs h r s = stored S \<and> len (SignBytes S) = 0))
       \<and> (isReplay (CheckHRS S h r s) \<longleftrightarrow>
            hrs h r s = stored S \<and> 0 < len (SignBytes S) \<and> Signature S \<noteq> None)
       \<and> (isPanic (CheckHRS S h r s) \<longleftrightarrow>
            hrs h r s = stored S \<and> 0 < len (SignBytes S) \<and> Signature S = None)
       \<and> (isFreshOK (CheckHRS S h r s) \<longleftrightarrow> stored S < hrs h r s)"
proof -
  note pos = len_pos_iff [OF assms]
  consider (below) "hrs h r s < stored S" | (same) "hrs h r s = stored S"
    | (above) "stored S < hrs h r s"
    by (rule linorder_cases)
  then show ?thesis
  proof cases
    case below
    then obtain e where "CheckHRS S h r s = Returns (False, Some e)"
      using CheckHRS_less by blast
    with below show ?thesis
      by (auto simp: isRegression_def isReplay_def isPanic_def isFreshOK_def)
  next
    case same
    then show ?thesis
      using pos
      by (auto simp: CheckHRS_equal isRegression_def isReplay_def isPanic_def isFreshOK_def)
  next
    case above
    then have "CheckHRS S h r s = Returns (False, None)"
      by (rule CheckHRS_greater)
    with above show ?thesis
      by (auto simp: isRegression_def isReplay_def isPanic_def isFreshOK_def)
  qed
qed

theorem CheckHRS_trichotomy_witness:
  "SignBytes \<lparr>Height = 10, Round = 0, Step = 1, EphemeralPublic = None,
      Signature = Some [7], SignBytes = Some [1, 2], filePath = ''s.json''\<rparr> \<noteq> Some []
   \<and> isReplay (CheckHRS \<lparr>Height = 10, Round = 0, Step = 1, EphemeralPublic = None,
      Signature = Some [7], SignBytes = Some [1, 2], filePath = ''s.json''\<rparr> 10 0 1)
   \<and> isRegression (CheckHRS \<lparr>Height = 10, Round = 0, Step = 1, EphemeralPublic = None,
      Signature = Some [7], SignBytes = Some [1, 2], filePath = ''s.json''\<rparr> 9 5 2)
   \<and> isFreshOK (CheckHRS \<lparr>Height = 10, Round = 0, Step = 1, EphemeralPublic = None,
      Signature = Some [7], SignBytes = Some [1, 2], filePath = ''s.json''\<rparr> 10 0 2)"
  using CheckHRS_trichotomy [of "\<lparr>Height = 10, Round = 0, Step = 1, EphemeralPublic = None,
      Signature = Some [7], SignBytes = Some [1, 2], filePath = ''s.json''\<rparr>" 10 0 1]
    CheckHRS_trichotomy [of "\<lparr>Height = 10, Round = 0, Step = 1, EphemeralPublic = None,
      Signature = Some [7], SignBytes = Some [1, 2], filePath = ''s.json''\<rparr>" 9 5 2]
    CheckHRS_trichotomy [of "\<lparr>Height = 10, Round = 0, Step = 1, EphemeralPublic = None,
      Signature = Some [7], SignBytes = Some [1, 2], filePath = ''s.json''\<rparr>" 10 0 2]
  by (simp add: stored_def hrs_def len_def)

text \<open>
  C1 as stated fails twice. With the request equal to the stored triple and
  non-empty \<open>SignBytes\<close> but a nil \<open>Signature\<close>, \<open>CheckHRS\<close> does not return
  \<open>(true, nil)\<close>; it panics. With the request equal to the stored triple and
  \<open>SignBytes\<close> an empty slice that is not nil, \<open>CheckHRS\<close> returns \<open>(true, nil)\<close>,
  not an error: it tests \<open>SignBytes\<close> against nil.
\<close>

theorem CheckHRS_replay_counterexample:
  "hrs 10 0 1 = stored \<lparr>Height = 10, Round = 0, Step = 1, EphemeralPublic = None,
      Signature = None, SignBytes = Some [1, 2], filePath = ''s.json''\<rparr>
   \<and> 0 < len (SignBytes \<lparr>Height = 10, Round = 0, Step = 1, EphemeralPublic = None,
      Signature = None, SignBytes = Some [1, 2], filePath = ''s.json''\<rparr>)
   \<and> CheckHRS \<lparr>Height = 10, Round = 0, Step = 1, EphemeralPublic = None,
      Signature = None, SignBytes = Some [1, 2], filePath = ''s.json''\<rparr> 10 0 1
       = Panics (PanicMsg ''pv: Signature is nil but SignBytes is not!'')
   \<and> hrs 10 0 1 = stored \<lparr>Height = 10, Round = 0, Step = 1, EphemeralPublic = None,
      Signature = Some [7], SignBytes = Some [], filePath = ''s.json''\<rparr>
   \<and> len (SignBytes \<lparr>Height = 10, Round = 0, Step = 1, EphemeralPublic = None,
      Signature = Some [7], SignBytes = Some [], filePath = ''s.json''\<rparr>) = 0
   \<and> CheckHRS \<lparr>Height = 10, Round = 0, Step = 1, EphemeralPublic = None,
      Signature = Some [7], SignBytes = Some [], filePath = ''s.json''\<rparr> 10 0 1
       = Returns (True, None)"
  by (simp add: stored_def hrs_def len_def CheckHRS_def)

text \<open>
  C3. When the request equals the stored (height, round, step), \<open>SignBytes\<close> is
  non-empty and \<open>Signature\<close> is nil, \<open>CheckHRS\<close> panics: it returns neither a
  value nor an error.
\<close>

theorem CheckHRS_panics_without_signature:
  assumes "h = Height S" and "r = Round S" and "s = Step S"
    and "0 < len (SignBytes S)" and "Signature S = None"
  shows "CheckHRS S h r s = Panics (PanicMsg ''pv: Signature is nil but SignBytes is not!'')"
  using assms by (cases "SignBytes S") (simp_all add: CheckHRS_def len_def)

theorem CheckHRS_panics_without_signature_witness:
  "0 < len (SignBytes \<lparr>Height = 7, Round = 2, Step = 3, EphemeralPublic = None,
      Signature = None, SignBytes = Some [9], filePath = ''''\<rparr>)
   \<and> CheckHRS \<lparr>Height = 7, Round = 2, Step = 3, EphemeralPublic = None,
      Signature = None, SignBytes = Some [9], filePath = ''''\<rparr> 7 2 3
       = Panics (PanicMsg ''pv: Signature is nil but SignBytes is not!'')"
  using CheckHRS_panics_without_signature [of 7 "\<lparr>Height = 7, Round = 2, Step = 3,
      EphemeralPublic = None, Signature = None, SignBytes = Some [9], filePath = ''''\<rparr>" 2 3]
  by (simp add: len_def)

section \<open>Properties of OnlyDifferByTimestamp\<close>

lemma step_constants_distinct:
  "stepPropose \<noteq> stepPrevote" "stepPropose \<noteq> stepPrecommit" "stepPrevote \<noteq> stepPrecommit"
  "stepNone \<noteq> stepPropose" "stepNone \<noteq> stepPrevote" "stepNone \<noteq> stepPrecommit"
  by (simp_all add: stepNone_def stepPropose_def stepPrevote_def stepPrecommit_def)

lemma checkVote_decoded:
  "UnmarshalVote cdc l = Inr lastVote \<Longrightarrow> UnmarshalVote cdc n = Inr newVote \<Longrightarrow>
   checkVoteOnlyDifferByTimestamp cdc now l n =
     Returns (vTimestamp lastVote,
       bytes_Equal (fst (MarshalJSONVote cdc (newVote\<lparr>vTimestamp := now\<rparr>)))
                   (fst (MarshalJSONVote cdc (lastVote\<lparr>vTimestamp := now\<rparr>))))"
  by (simp add: checkVoteOnlyDifferByTimestamp_def)

lemma checkProposal_decoded:
  "UnmarshalProposal cdc l = Inr lastProposal \<Longrightarrow> UnmarshalProposal cdc n = Inr newProposal \<Longrightarrow>
   checkProposalOnlyDifferByTimestamp cdc now l n =
     Returns (pTimestamp lastProposal,
       bytes_Equal (fst (MarshalProposal cdc (newProposal\<lparr>pTimestamp := now\<rparr>)))
                   (fst (MarshalProposal cdc (lastProposal\<lparr>pTimestamp := now\<rparr>))))"
  by (simp add: checkProposalOnlyDifferByTimestamp_def)

lemma checkVote_undecodable:
  "isl (UnmarshalVote cdc l) \<or> isl (UnmarshalVote cdc n) \<Longrightarrow>
   isPanic (checkVoteOnlyDifferByTimestamp cdc now l n)"
  by (auto simp: checkVoteOnlyDifferByTimestamp_def isPanic_def split: sum.splits)

lemma checkProposal_undecodable:
  "isl (UnmarshalProposal cdc l) \<or> isl (UnmarshalProposal cdc n) \<Longrightarrow>
   isPanic (checkProposalOnlyDifferByTimestamp cdc now l n)"
  by (auto simp: checkProposalOnlyDifferByTimestamp_def isPanic_def split: sum.splits)

text \<open>
  C2. When the stored step is propose, \<open>OnlyDifferByTimestamp\<close> decodes the stored
  and the candidate bytes as canonical proposals; when it is prevote or precommit,
  as canonical votes. With both decoded, it sets both timestamps to the same
  placeholder \<open>now\<close>, encodes both again and returns whether the two encodings are
  byte-equal, together with the timestamp the stored payload had, whether the
  answer is true or false.
\<close>

theorem OnlyDifferByTimestamp_compares_up_to_timestamp:
  "(Step S = stepPropose \<longrightarrow>
      UnmarshalProposal cdc (SignBytes S) = Inr lastProposal \<longrightarrow>
      UnmarshalProposal cdc signBytes = Inr newProposal \<longrightarrow>
      OnlyDifferByTimestamp cdc now S signBytes =
        Returns (pTimestamp lastProposal,
          bytes_Equal (fst (MarshalProposal cdc (newProposal\<lparr>pTimestamp := now\<rparr>)))
                      (fst (MarshalProposal cdc (lastProposal\<lparr>pTimestamp := now\<rparr>)))))
   \<and> (Step S = stepPrevote \<or> Step S = stepPrecommit \<longrightarrow>
      UnmarshalVote cdc (SignBytes S) = Inr lastVote \<longrightarrow>
      UnmarshalVote cdc signBytes = Inr newVote \<longrightarrow>
      OnlyDifferByTimestamp cdc now S signBytes =
        Returns (vTimestamp lastVote,
          bytes_Equal (fst (MarshalJSONVote cdc (newVote\<lparr>vTimestamp := now\<rparr>)))
                      (fst (MarshalJSONVote cdc (lastVote\<lparr>vTimestamp := now\<rparr>)))))"
proof (intro conjI impI)
  assume "Step S = stepPropose"
    and "UnmarshalProposal cdc (SignBytes S) = Inr lastProposal"
    and "UnmarshalProposal cdc signBytes = Inr newProposal"
  then show "OnlyDifferByTimestamp cdc now S signBytes =
        Returns (pTimestamp lastProposal,
          bytes_Equal (fst (MarshalProposal cdc (newProposal\<lparr>pTimestamp := now\<rparr>)))
                      (fst (MarshalProposal cdc (lastProposal\<lparr>pTimestamp := now\<rparr>))))"
    by (simp add: OnlyDifferByTimestamp_def checkProposal_decoded)
next
  assume step: "Step S = stepPrevote \<or> Step S = stepPrecommit"
    and "UnmarshalVote cdc (SignBytes S) = Inr lastVote"
    and "UnmarshalVote cdc signBytes = Inr newVote"
  moreover from step have "Step S \<noteq> stepPropose"
    using step_constants_distinct by auto
  ultimately show "OnlyDifferByTimestamp cdc now S signBytes =
        Returns (vTimestamp lastVote,
          bytes_Equal (fst (MarshalJSONVote cdc (newVote\<lparr>vTimestamp := now\<rparr>)))
                      (fst (MarshalJSONVote cdc (lastVote\<lparr>vTimestamp := now\<rparr>))))"
    by (simp add: OnlyDifferByTimestamp_def checkVote_decoded)
qed

theorem OnlyDifferByTimestamp_compares_up_to_timestamp_witness:
  "OnlyDifferByTimestamp sampleCodec 99
      \<lparr>Height = 10, Round = 0, Step = 1, EphemeralPublic = None, Signature = Some [5],
       SignBytes = Some [32, 10, 0, 7], filePath = ''s.json''\<rparr> (Some [32, 10, 0, 8])
     = Returns (7, True)
   \<and> OnlyDifferByTimestamp sampleCodec 99
      \<lparr>Height = 10, Round = 0, Step = 2, EphemeralPublic = None, Signature = Some [5],
       SignBytes = Some [1, 10, 0, 7], filePath = ''s.json''\<rparr> (Some [1, 10, 1, 8])
     = Returns (7, False)"
  using OnlyDifferByTimestamp_compares_up_to_timestamp
    [of "\<lparr>Height = 10, Round = 0, Step = 1, EphemeralPublic = None, Signature = Some [5],
       SignBytes = Some [32, 10, 0, 7], filePath = ''s.json''\<rparr>" sampleCodec
       "\<lparr>pType = 32, pHeight = 10, pRound = 0, pPOLRound = 0, pBlockID = [],
         pTimestamp = 7, pChainID = ''chain''\<rparr>"
       "Some [32, 10, 0, 8]"
       "\<lparr>pType = 32, pHeight = 10, pRound = 0, pPOLRound = 0, pBlockID = [],
         pTimestamp = 8, pChainID = ''chain''\<rparr>" 99]
    OnlyDifferByTimestamp_compares_up_to_timestamp
    [of "\<lparr>Height = 10, Round = 0, Step = 2, EphemeralPublic = None, Signature = Some [5],
       SignBytes = Some [1, 10, 0, 7], filePath = ''s.json''\<rparr>" sampleCodec _
       "Some [1, 10, 1, 8]" _ 99
       "\<lparr>vType = 1, vHeight = 10, vRound = 0, vBlockID = [],
         vTimestamp = 7, vChainID = ''chain''\<rparr>"
       "\<lparr>vType = 1, vHeight = 10, vRound = 1, vBlockID = [],
         vTimestamp = 8, vChainID = ''chain''\<rparr>"]
  by (simp add: sampleCodec_def sampleUnmarshalVote_def sampleUnmarshalProposal_def
        stepPropose_def stepPrevote_def stepPrecommit_def bytes_Equal_def)

text \<open>
  C4. If the stored or the candidate sign bytes do not decode as the payload type
  the comparison expects, the comparison panics; it returns neither false nor an
  error. This holds for the vote and the proposal comparison, and for
  \<open>OnlyDifferByTimestamp\<close> at the steps that reach them.
\<close>

theorem OnlyDifferByTimestamp_decode_failure_panics:
  "(isl (UnmarshalVote cdc lastSignBytes) \<or> isl (UnmarshalVote cdc newSignBytes) \<longrightarrow>
      isPanic (checkVoteOnlyDifferByTimestamp cdc now lastSignBytes newSignBytes))
   \<and> (isl (UnmarshalProposal cdc lastSignBytes) \<or> isl (UnmarshalProposal cdc newSignBytes) \<longrightarrow>
      isPanic (checkProposalOnlyDifferByTimestamp cdc now lastSignBytes newSignBytes))
   \<and> (Step S = stepPropose \<longrightarrow>
      isl (UnmarshalProposal cdc (SignBytes S)) \<or> isl (UnmarshalProposal cdc newSignBytes) \<longrightarrow>
      isPanic (OnlyDifferByTimestamp cdc now S newSignBytes))
   \<and> (Step S = stepPrevote \<or> Step S = stepPrecommit \<longrightarrow>
      isl (UnmarshalVote cdc (SignBytes S)) \<or> isl (UnmarshalVote cdc newSignBytes) \<longrightarrow>
      isPanic (OnlyDifferByTimestamp cdc now S newSignBytes))"
proof (intro conjI impI)
  assume "isl (UnmarshalVote cdc lastSignBytes) \<or> isl (UnmarshalVote cdc newSignBytes)"
  then show "isPanic (checkVoteOnlyDifferByTimestamp cdc now lastSignBytes newSignBytes)"
    by (rule checkVote_undecodable)
next
  assume "isl (UnmarshalProposal cdc lastSignBytes) \<or> isl (UnmarshalProposal cdc newSignBytes)"
  then show "isPanic (checkProposalOnlyDifferByTimestamp cdc now lastSignBytes newSignBytes)"
    by (rule checkProposal_undecodable)
next
  assume "Step S = stepPropose"
    and "isl (UnmarshalProposal cdc (SignBytes S)) \<or> isl (UnmarshalProposal cdc newSignBytes)"
  then show "isPanic (OnlyDifferByTimestamp cdc now S newSignBytes)"
    by (simp add: OnlyDifferByTimestamp_def checkProposal_undecodable)
next
  assume step: "Step S = stepPrevote \<or> Step S = stepPrecommit"
    and bad: "isl (UnmarshalVote cdc (SignBytes S)) \<or> isl (UnmarshalVote cdc newSignBytes)"
  from step have "Step S \<noteq> stepPropose"
    using step_constants_distinct by auto
  with step bad show "isPanic (OnlyDifferByTimestamp cdc now S newSignBytes)"
    by (simp add: OnlyDifferByTimestamp_def checkVote_undecodable)
qed

theorem OnlyDifferByTimestamp_decode_failure_panics_witness:
  "isl (UnmarshalVote sampleCodec (Some [1, 10, 0]))
   \<and> isPanic (checkVoteOnlyDifferByTimestamp sampleCodec 99 (Some [1, 10, 0, 7]) (Some [1, 10, 0]))
   \<and> isl (UnmarshalProposal sampleCodec None)
   \<and> isPanic (checkProposalOnlyDifferByTimestamp sampleCodec 99 None (Some [32, 10, 0, 7]))
   \<and> isPanic (OnlyDifferByTimestamp sampleCodec 99
        \<lparr>Height = 10, Round = 0, Step = 1, EphemeralPublic = None, Signature = None,
         SignBytes = None, filePath = ''s.json''\<rparr> (Some [32, 10, 0, 7]))
   \<and> isPanic (OnlyDifferByTimestamp sampleCodec 99
        \<lparr>Height = 10, Round = 0, Step = 3, EphemeralPublic = None, Signature = Some [5],
         SignBytes = Some [2, 10, 0, 7], filePath = ''s.json''\<rparr> (Some [1, 10, 0]))"
  using OnlyDifferByTimestamp_decode_failure_panics
      [of sampleCodec "Some [1, 10, 0, 7]" "Some [1, 10, 0]" 99
        "\<lparr>Height = 10, Round = 0, Step = 3, EphemeralPublic = None, Signature = Some [5],
         SignBytes = Some [2, 10, 0, 7], filePath = ''s.json''\<rparr>"]
    OnlyDifferByTimestamp_decode_failure_panics
      [of sampleCodec None "Some [32, 10, 0, 7]" 99
        "\<lparr>Height = 10, Round = 0, Step = 1, EphemeralPublic = None, Signature = None,
         SignBytes = None, filePath = ''s.json''\<rparr>"]
  by (simp add: sampleCodec_def sampleUnmarshalVote_def sampleUnmarshalProposal_def
        stepPropose_def stepPrevote_def stepPrecommit_def)

section \<open>Properties of UnpackHRS\<close>

text \<open>
  C5 (amended). \<open>UnpackHRS\<close> tries the bytes as a canonical proposal first and, only
  if that fails, as a canonical vote: when the proposal decoding succeeds the
  result is the proposal's height and round with step propose; when it fails and
  the vote decoding succeeds, the result is the vote's height, round and step (a
  panic for a vote that is neither prevote nor precommit). \<open>UnpackHRS\<close> returns an
  error exactly when both decodings fail.
\<close>

theorem UnpackHRS_proposal_first:
  "(UnmarshalProposal cdc signBytes = Inr proposal \<longrightarrow>
      UnpackHRS cdc signBytes = Returns (pHeight proposal, pRound proposal, stepPropose, None))
   \<and> (isl (UnmarshalProposal cdc signBytes) \<longrightarrow> UnmarshalVote cdc signBytes = Inr vote \<longrightarrow>
      UnpackHRS cdc signBytes =
        (case CanonicalVoteToStep vote of
           Panics p \<Rightarrow> Panics p
         | Returns step \<Rightarrow> Returns (vHeight vote, vRound vote, step, None)))
   \<and> ((\<exists>h r s e. UnpackHRS cdc signBytes = Returns (h, r, s, Some e)) \<longleftrightarrow>
        isl (UnmarshalProposal cdc signBytes) \<and> isl (UnmarshalVote cdc signBytes))"
  by (auto simp: UnpackHRS_def split: sum.splits outcome.splits)

theorem UnpackHRS_proposal_first_witness:
  "UnpackHRS sampleCodec (Some [32, 10, 0, 7, 255]) = Returns (10, 0, stepPropose, None)
   \<and> isl (UnmarshalProposal sampleCodec (Some [2, 10]))
   \<and> isl (UnmarshalVote sampleCodec (Some [2, 10]))
   \<and> UnpackHRS sampleCodec (Some [2, 10]) = Returns (0, 0, 0, Some CouldNotUnpackHRS)"
  using UnpackHRS_proposal_first [of sampleCodec "Some [32, 10, 0, 7, 255]"
      "\<lparr>pType = 32, pHeight = 10, pRound = 0, pPOLRound = 255, pBlockID = [],
        pTimestamp = 7, pChainID = ''chain''\<rparr>"]
    UnpackHRS_proposal_first [of sampleCodec "Some [2, 10]"]
  by (simp add: sampleCodec_def sampleUnmarshalVote_def sampleUnmarshalProposal_def
        UnpackHRS_def)

text \<open>
  C5 as stated fails: on bytes that decode both as a vote and as a proposal, the
  vote decoding does not fail, yet \<open>UnpackHRS\<close> answers with the proposal (step
  propose), where trying the vote first gives the prevote step.
\<close>

theorem UnpackHRS_vote_first_counterexample:
  "UnmarshalVote sampleCodec (Some [1, 10, 0, 7])
     = Inr \<lparr>vType = PrevoteType, vHeight = 10, vRound = 0, vBlockID = [], vTimestamp = 7,
            vChainID = ''chain''\<rparr>
   \<and> UnpackHRS sampleCodec (Some [1, 10, 0, 7]) = Returns (10, 0, stepPropose, None)
   \<and> UnpackHRS_voteFirst sampleCodec (Some [1, 10, 0, 7]) = Returns (10, 0, stepPrevote, None)
   \<and> UnpackHRS sampleCodec (Some [1, 10, 0, 7]) \<noteq> UnpackHRS_voteFirst sampleCodec (Some [1, 10, 0, 7])"
  by (simp add: sampleCodec_def sampleUnmarshalVote_def sampleUnmarshalProposal_def
        UnpackHRS_def UnpackHRS_voteFirst_def CanonicalVoteToStep_def PrevoteType_def
        stepPropose_def stepPrevote_def)

section \<open>Properties of Save and LoadOrCreateSignState\<close>

lemma Save_unset_path:
  "filePath st = '''' \<Longrightarrow>
   Save cdc os st fs = Panics (PanicMsg ''cannot save SignState: filePath not set'')"
  by (simp add: Save_def)

lemma Save_written:
  "filePath st \<noteq> '''' \<Longrightarrow> MarshalJSONIndent cdc st = (jsonBytes, None) \<Longrightarrow>
   Save cdc os st fs =
     (case WriteFileAtomic os fs (filePath st) jsonBytes perm0600 of
        Inl err \<Rightarrow> Panics (PanicErr err)
      | Inr fs' \<Rightarrow> Returns fs')"
  by (simp add: Save_def)

lemma Save_marshal_error:
  "filePath st \<noteq> '''' \<Longrightarrow> MarshalJSONIndent cdc st = (jsonBytes, Some err) \<Longrightarrow>
   Save cdc os st fs = Panics (PanicErr err)"
  by (simp add: Save_def)

lemma Save_Returns_iff:
  "Save cdc os st fs = Returns fs' \<longleftrightarrow>
     filePath st \<noteq> '''' \<and>
     (\<exists>jsonBytes. MarshalJSONIndent cdc st = (jsonBytes, None) \<and>
        WriteFileAtomic os fs (filePath st) jsonBytes perm0600 = Inr fs')"
proof (cases "filePath st = ''''")
  case True
  then show ?thesis by (simp add: Save_def)
next
  case False
  obtain js e where m: "MarshalJSONIndent cdc st = (js, e)"
    by (cases "MarshalJSONIndent cdc st")
  show ?thesis
  proof (cases e)
    case None
    with False m show ?thesis
      by (simp add: Save_def split: sum.splits)
  next
    case (Some err)
    with False m show ?thesis
      by (simp add: Save_def)
  qed
qed

lemma tempName_neq: "tempName filename suffix \<noteq> filename"
  by (simp add: tempName_def)

lemma WriteFileAtomic_target:
  assumes "d' \<in> set (fst (tempfile_WriteFileAtomic f suffix d filename data perm))"
  shows "d' filename = d filename \<or> d' filename = Some (contents data, perm)"
proof -
  have neq: "tempName filename suffix \<noteq> filename" "filename \<noteq> tempName filename suffix"
    using tempName_neq [of filename suffix] by auto
  show ?thesis
    using assms neq
    by (cases f) (auto simp: tempfile_WriteFileAtomic_def Let_def split: if_splits)
qed

lemma WriteFileAtomic_succeeds_iff:
  "snd (tempfile_WriteFileAtomic f suffix d filename data perm) = None \<longleftrightarrow>
     f = NoFault \<and> d (tempName filename suffix) = None"
  by (cases f; cases "d (tempName filename suffix)")
     (simp_all add: tempfile_WriteFileAtomic_def Let_def)

lemma WriteFileAtomic_success:
  "f = NoFault \<Longrightarrow> d (tempName filename suffix) = None \<Longrightarrow>
   tempfile_WriteFileAtomic f suffix d filename data perm =
     ([d, d(tempName filename suffix \<mapsto> ([], perm)),
       d(tempName filename suffix \<mapsto> (contents data, perm)),
       d(tempName filename suffix \<mapsto> (contents data, perm)),
       (d(tempName filename suffix := None))(filename \<mapsto> (contents data, perm))], None)"
  by (simp add: tempfile_WriteFileAtomic_def Let_def)

lemma atomicOS_write:
  "WriteFileAtomic (atomicOS f suffix) d filename data perm =
     (case tempfile_WriteFileAtomic f suffix d filename data perm of
        (states, Some err) \<Rightarrow> Inl err
      | (states, None) \<Rightarrow> Inr (last states))"
  by (simp add: atomicOS_def)

lemma Save_observed_target:
  assumes "d' \<in> set (Save_observed cdc f suffix st d)"
  shows "d' (filePath st) = d (filePath st) \<or>
         (\<exists>js. MarshalJSONIndent cdc st = (js, None) \<and>
            d' (filePath st) = Some (contents js, perm0600))"
proof (cases "filePath st = ''''")
  case True
  with assms show ?thesis by (simp add: Save_observed_def)
next
  case False
  obtain js e where m: "MarshalJSONIndent cdc st = (js, e)"
    by (cases "MarshalJSONIndent cdc st")
  show ?thesis
  proof (cases e)
    case None
    with assms False m
    have "d' \<in> set (fst (tempfile_WriteFileAtomic f suffix d (filePath st) js perm0600))"
      by (simp add: Save_observed_def)
    from WriteFileAtomic_target [OF this] m None show ?thesis by auto
  next
    case (Some err)
    with assms False m show ?thesis by (simp add: Save_observed_def)
  qed
qed

lemma Save_atomic_Returns:
  assumes "Save cdc (atomicOS f suffix) st d = Returns d'"
  shows "d' = last (Save_observed cdc f suffix st d)
       \<and> (\<exists>js. MarshalJSONIndent cdc st = (js, None) \<and>
             d' (filePath st) = Some (contents js, perm0600))
       \<and> (\<forall>p. p \<noteq> filePath st \<longrightarrow> d' p = d p)"
proof -
  from assms obtain js where path: "filePath st \<noteq> ''''"
    and m: "MarshalJSONIndent cdc st = (js, None)"
    and w: "WriteFileAtomic (atomicOS f suffix) d (filePath st) js perm0600 = Inr d'"
    by (auto simp: Save_Returns_iff)
  from w have ok: "snd (tempfile_WriteFileAtomic f suffix d (filePath st) js perm0600) = None"
    and d': "d' = last (fst (tempfile_WriteFileAtomic f suffix d (filePath st) js perm0600))"
    by (auto simp: atomicOS_write split: prod.splits option.splits)
  from ok have nf: "f = NoFault" and free: "d (tempName (filePath st) suffix) = None"
    by (simp_all add: WriteFileAtomic_succeeds_iff)
  from d' have final: "d' = (d(tempName (filePath st) suffix := None))
      (filePath st \<mapsto> (contents js, perm0600))"
    by (simp add: WriteFileAtomic_success nf free)
  have "d' = last (Save_observed cdc f suffix st d)"
    using path m d' by (simp add: Save_observed_def)
  moreover have "d' (filePath st) = Some (contents js, perm0600)"
    using final by simp
  moreover have "\<forall>p. p \<noteq> filePath st \<longrightarrow> d' p = d p"
    using final free by auto
  ultimately show ?thesis using m by blast
qed

lemma Save_atomic_write_fails:
  assumes "filePath st \<noteq> ''''" and "MarshalJSONIndent cdc st = (js, None)"
    and "snd (tempfile_WriteFileAtomic f suffix d (filePath st) js perm0600) = Some err"
  shows "Save cdc (atomicOS f suffix) st d = Panics (PanicErr err)"
  using assms
  by (cases "tempfile_WriteFileAtomic f suffix d (filePath st) js perm0600")
     (simp add: Save_written atomicOS_write)

lemma Save_atomic_succeeds:
  assumes "filePath st \<noteq> ''''" and "MarshalJSONIndent cdc st = (js, None)"
    and "snd (tempfile_WriteFileAtomic f suffix d (filePath st) js perm0600) = None"
  shows "Save cdc (atomicOS f suffix) st d =
           Returns ((d(tempName (filePath st) suffix := None))
                      (filePath st \<mapsto> (contents js, perm0600)))"
proof -
  from assms(3) have nf: "f = NoFault" and free: "d (tempName (filePath st) suffix) = None"
    by (simp_all add: WriteFileAtomic_succeeds_iff)
  show ?thesis
    using assms(1,2)
    by (simp add: Save_written atomicOS_write WriteFileAtomic_success nf free)
qed

text \<open>
  C7. For a state with a non-empty file path, \<open>Save\<close> hands the whole marshalled
  state to one call of the atomic temp-file-plus-rename write, with permission
  bits 0600, and the file system it leaves is the one that call returns; \<open>Save\<close>
  changes the file system in no other way. With the write as the specification
  describes it, every disk state a call of \<open>Save\<close> goes through, whether the call
  returns or panics and whichever step of the write fails, has at the state's
  path either what was there before or the whole marshalled state with
  permission bits 0600, never a part of it; when \<open>Save\<close> returns, the path holds
  the whole state with bits 0600 and every other path is as before. \<open>Save\<close>
  panics if the file path is unset and if the write fails.
\<close>

theorem Save_one_atomic_write_0600:
  "(filePath st = '''' \<longrightarrow>
      Save cdc os st fs = Panics (PanicMsg ''cannot save SignState: filePath not set''))
   \<and> (filePath st \<noteq> '''' \<longrightarrow> MarshalJSONIndent cdc st = (jsonBytes, None) \<longrightarrow>
        WriteFileAtomic os fs (filePath st) jsonBytes perm0600 = Inr fs' \<longrightarrow>
        Save cdc os st fs = Returns fs')
   \<and> (filePath st \<noteq> '''' \<longrightarrow> MarshalJSONIndent cdc st = (jsonBytes, None) \<longrightarrow>
        WriteFileAtomic os fs (filePath st) jsonBytes perm0600 = Inl err \<longrightarrow>
        Save cdc os st fs = Panics (PanicErr err))
   \<and> (Save cdc os st fs = Returns fs'' \<longrightarrow>
        filePath st \<noteq> '''' \<and>
        (\<exists>js. MarshalJSONIndent cdc st = (js, None) \<and>
           WriteFileAtomic os fs (filePath st) js perm0600 = Inr fs''))
   \<and> perm0600 = 6 * 64
   \<and> (\<forall>d' \<in> set (Save_observed cdc f suffix st d).
        d' (filePath st) = d (filePath st) \<or>
        (\<exists>js. MarshalJSONIndent cdc st = (js, None) \<and>
           d' (filePath st) = Some (contents js, perm0600)))
   \<and> (\<forall>d'. Save cdc (atomicOS f suffix) st d = Returns d' \<longrightarrow>
        d' = last (Save_observed cdc f suffix st d)
        \<and> (\<exists>js. MarshalJSONIndent cdc st = (js, None) \<and>
              d' (filePath st) = Some (contents js, perm0600))
        \<and> (\<forall>p. p \<noteq> filePath st \<longrightarrow> d' p = d p))
   \<and> (filePath st \<noteq> '''' \<longrightarrow> MarshalJSONIndent cdc st = (jsonBytes, None) \<longrightarrow>
        snd (tempfile_WriteFileAtomic f suffix d (filePath st) jsonBytes perm0600) = Some err \<longrightarrow>
        Save cdc (atomicOS f suffix) st d = Panics (PanicErr err))
   \<and> (filePath st \<noteq> '''' \<longrightarrow> MarshalJSONIndent cdc st = (jsonBytes, None) \<longrightarrow>
        f = NoFault \<longrightarrow> d (tempName (filePath st) suffix) = None \<longrightarrow>
        Save cdc (atomicOS f suffix) st d =
          Returns ((d(tempName (filePath st) suffix := None))
                     (filePath st \<mapsto> (contents jsonBytes, perm0600)))
        \<and> Save_observed cdc f suffix st d =
            [d, d(tempName (filePath st) suffix \<mapsto> ([], perm0600)),
             d(tempName (filePath st) suffix \<mapsto> (contents jsonBytes, perm0600)),
             d(tempName (filePath st) suffix \<mapsto> (contents jsonBytes, perm0600)),
             (d(tempName (filePath st) suffix := None))
               (filePath st \<mapsto> (contents jsonBytes, perm0600))])"
proof (intro conjI impI ballI allI)
  assume "filePath st = ''''"
  then show "Save cdc os st fs = Panics (PanicMsg ''cannot save SignState: filePath not set'')"
    by (rule Save_unset_path)
next
  assume "filePath st \<noteq> ''''" and "MarshalJSONIndent cdc st = (jsonBytes, None)"
    and "WriteFileAtomic os fs (filePath st) jsonBytes perm0600 = Inr fs'"
  then show "Save cdc os st fs = Returns fs'"
    by (simp add: Save_written)
next
  assume "filePath st \<noteq> ''''" and "MarshalJSONIndent cdc st = (jsonBytes, None)"
    and "WriteFileAtomic os fs (filePath st) jsonBytes perm0600 = Inl err"
  then show "Save cdc os st fs = Panics (PanicErr err)"
    by (simp add: Save_written)
next
  assume "Save cdc os st fs = Returns fs''"
  then show "filePath st \<noteq> ''''"
    by (simp add: Save_Returns_iff)
next
  assume "Save cdc os st fs = Returns fs''"
  then show "\<exists>js. MarshalJSONIndent cdc st = (js, None) \<and>
           WriteFileAtomic os fs (filePath st) js perm0600 = Inr fs''"
    by (simp add: Save_Returns_iff)
next
  show "perm0600 = 6 * 64"
    by (simp add: perm0600_def)
next
  fix d'
  assume "d' \<in> set (Save_observed cdc f suffix st d)"
  then show "d' (filePath st) = d (filePath st) \<or>
        (\<exists>js. MarshalJSONIndent cdc st = (js, None) \<and>
           d' (filePath st) = Some (contents js, perm0600))"
    by (rule Save_observed_target)
next
  fix d'
  assume r: "Save cdc (atomicOS f suffix) st d = Returns d'"
  from Save_atomic_Returns [OF r] show "d' = last (Save_observed cdc f suffix st d)"
    by blast
  from Save_atomic_Returns [OF r]
  show "\<exists>js. MarshalJSONIndent cdc st = (js, None) \<and>
              d' (filePath st) = Some (contents js, perm0600)"
    by blast
  fix p
  assume "p \<noteq> filePath st"
  with Save_atomic_Returns [OF r] show "d' p = d p"
    by blast
next
  assume "filePath st \<noteq> ''''" and "MarshalJSONIndent cdc st = (jsonBytes, None)"
    and "snd (tempfile_WriteFileAtomic f suffix d (filePath st) jsonBytes perm0600) = Some err"
  then show "Save cdc (atomicOS f suffix) st d = Panics (PanicErr err)"
    by (rule Save_atomic_write_fails)
next
  assume p: "filePath st \<noteq> ''''" and m: "MarshalJSONIndent cdc st = (jsonBytes, None)"
    and nf: "f = NoFault" and free: "d (tempName (filePath st) suffix) = None"
  then have "snd (tempfile_WriteFileAtomic f suffix d (filePath st) jsonBytes perm0600) = None"
    by (simp add: WriteFileAtomic_succeeds_iff)
  with p m show "Save cdc (atomicOS f suffix) st d =
          Returns ((d(tempName (filePath st) suffix := None))
                     (filePath st \<mapsto> (contents jsonBytes, perm0600)))"
    by (rule Save_atomic_succeeds)
  from p m nf free show "Save_observed cdc f suffix st d =
            [d, d(tempName (filePath st) suffix \<mapsto> ([], perm0600)),
             d(tempName (filePath st) suffix \<mapsto> (contents jsonBytes, perm0600)),
             d(tempName (filePath st) suffix \<mapsto> (contents jsonBytes, perm0600)),
             (d(tempName (filePath st) suffix := None))
               (filePath st \<mapsto> (contents jsonBytes, perm0600))]"
    by (simp add: Save_observed_def WriteFileAtomic_success Let_def)
qed

theorem Save_one_atomic_write_0600_witness:
  "Save sampleCodec (atomicOS NoFault ''tmp'')
      \<lparr>Height = 10, Round = 2, Step = 3, EphemeralPublic = None, Signature = Some [5],
       SignBytes = Some [2, 10, 2, 7], filePath = ''state.json''\<rparr>
      [''state.json'' \<mapsto> ([9, 9], 420)]
     = Returns ([''state.json'' \<mapsto> ([10, 2, 3], 384)])
   \<and> Save sampleCodec (atomicOS (WriteFails 1) ''tmp'')
      \<lparr>Height = 10, Round = 2, Step = 3, EphemeralPublic = None, Signature = Some [5],
       SignBytes = Some [2, 10, 2, 7], filePath = ''state.json''\<rparr>
      [''state.json'' \<mapsto> ([9, 9], 420)]
     = Panics (PanicErr (LibError ''short write''))
   \<and> map (\<lambda>d'. d' ''state.json'')
        (Save_observed sampleCodec (WriteFails 1) ''tmp''
          \<lparr>Height = 10, Round = 2, Step = 3, EphemeralPublic = None, Signature = Some [5],
           SignBytes = Some [2, 10, 2, 7], filePath = ''state.json''\<rparr>
          [''state.json'' \<mapsto> ([9, 9], 420)])
       = [Some ([9, 9], 420), Some ([9, 9], 420), Some ([9, 9], 420), Some ([9, 9], 420)]
   \<and> Save sampleCodec sampleOS
      \<lparr>Height = 10, Round = 2, Step = 3, EphemeralPublic = None, Signature = Some [5],
       SignBytes = Some [2, 10, 2, 7], filePath = ''''\<rparr> Map.empty
     = Panics (PanicMsg ''cannot save SignState: filePath not set'')"
proof (intro conjI)
  let ?st = "\<lparr>Height = 10, Round = 2, Step = 3, EphemeralPublic = None, Signature = Some [5],
       SignBytes = Some [2, 10, 2, 7], filePath = ''state.json''\<rparr>"
  let ?d = "[''state.json'' \<mapsto> ([9, 9 :: byte], 420 :: nat)]"
  have p: "filePath ?st \<noteq> ''''" by simp
  have path: "filePath ?st = ''state.json''" by simp
  have m: "MarshalJSONIndent sampleCodec ?st = (Some [10, 2, 3], None)"
    by (simp add: sampleCodec_def)
  have tmp: "tempName (filePath ?st) ''tmp'' = ''state.json.tmp''"
    by (simp add: tempName_def)
  have free: "?d (tempName (filePath ?st) ''tmp'') = None"
    by (simp add: tempName_def)
  have nf: "NoFault = NoFault" by simp
  note inst = Save_one_atomic_write_0600
    [where st = ?st and cdc = sampleCodec and d = ?d and suffix = "''tmp''"
       and jsonBytes = "Some [10, 2, 3]"]
  note ok = inst [where f = NoFault, THEN conjunct2, THEN conjunct2, THEN conjunct2,
      THEN conjunct2, THEN conjunct2, THEN conjunct2, THEN conjunct2, THEN conjunct2,
      rule_format, OF p m nf free, THEN conjunct1]
  have final: "(?d(tempName (filePath ?st) ''tmp'' := None))
                     (filePath ?st \<mapsto> (contents (Some [10, 2, 3]), perm0600))
                 = [''state.json'' \<mapsto> ([10, 2, 3], 384)]"
    unfolding tmp path by (rule ext) (simp add: contents_def perm0600_def)
  from ok show "Save sampleCodec (atomicOS NoFault ''tmp'') ?st ?d
      = Returns ([''state.json'' \<mapsto> ([10, 2, 3], 384)])"
    unfolding final .
  have fails: "snd (tempfile_WriteFileAtomic (WriteFails 1) ''tmp'' ?d (filePath ?st)
      (Some [10, 2, 3]) perm0600) = Some (LibError ''short write'')"
    by (simp add: tempfile_WriteFileAtomic_def tempName_def Let_def)
  show "Save sampleCodec (atomicOS (WriteFails 1) ''tmp'') ?st ?d
      = Panics (PanicErr (LibError ''short write''))"
    by (rule inst [where f = "WriteFails 1", THEN conjunct2, THEN conjunct2, THEN conjunct2,
      THEN conjunct2, THEN conjunct2, THEN conjunct2, THEN conjunct2, THEN conjunct1,
      rule_format, OF p m fails])
  show "map (\<lambda>d'. d' ''state.json'') (Save_observed sampleCodec (WriteFails 1) ''tmp'' ?st ?d)
      = [Some ([9, 9], 420), Some ([9, 9], 420), Some ([9, 9], 420), Some ([9, 9], 420)]"
    by (simp add: Save_observed_def m tempfile_WriteFileAtomic_def tempName_def Let_def)
next
  let ?st = "\<lparr>Height = 10, Round = 2, Step = 3, EphemeralPublic = None, Signature = Some [5],
       SignBytes = Some [2, 10, 2, 7], filePath = ''''\<rparr>"
  have p: "filePath ?st = ''''" by simp
  show "Save sampleCodec sampleOS ?st Map.empty
          = Panics (PanicMsg ''cannot save SignState: filePath not set'')"
    by (rule Save_one_atomic_write_0600 [THEN conjunct1, rule_format, OF p])
qed

lemma LoadSignState_error_iff:
  "snd (LoadSignState cdc os fs path) \<noteq> None \<longleftrightarrow>
     isl (ReadFile os fs path) \<or>
     (\<exists>b. ReadFile os fs path = Inr b \<and> snd (UnmarshalJSON cdc b emptySignState) \<noteq> None)"
proof (cases "ReadFile os fs path")
  case (Inl err)
  then show ?thesis by (simp add: LoadSignState_def)
next
  case (Inr b)
  obtain st' e where u: "UnmarshalJSON cdc b emptySignState = (st', e)"
    by (cases "UnmarshalJSON cdc b emptySignState")
  with Inr show ?thesis
    by (cases e) (simp_all add: LoadSignState_def)
qed

lemma LoadOrCreate_loaded:
  "LoadSignState cdc os fs path = (st, None) \<Longrightarrow>
   LoadOrCreateSignState cdc os fs path = Returns (st, None, fs)"
  by (simp add: LoadOrCreateSignState_def)

lemma LoadOrCreate_load_failed:
  "snd (LoadSignState cdc os fs path) \<noteq> None \<Longrightarrow>
   LoadOrCreateSignState cdc os fs path =
     (case Save cdc os (emptySignState\<lparr>filePath := path\<rparr>) fs of
        Panics p \<Rightarrow> Panics p
      | Returns fs' \<Rightarrow> Returns (emptySignState\<lparr>filePath := path\<rparr>, None, fs'))"
  by (cases "LoadSignState cdc os fs path")
     (auto simp: LoadOrCreateSignState_def Let_def)

lemma LoadOrCreate_no_error:
  "LoadOrCreateSignState cdc os fs path \<noteq> Returns (st, Some e, fs')"
proof (cases "snd (LoadSignState cdc os fs path)")
  case None
  then have "LoadSignState cdc os fs path = (fst (LoadSignState cdc os fs path), None)"
    by (metis prod.collapse)
  then show ?thesis
    using LoadOrCreate_loaded by fastforce
next
  case (Some a)
  then show ?thesis
    by (simp add: LoadOrCreate_load_failed split: outcome.splits)
qed

lemma emptySignState_at:
  "emptySignState\<lparr>filePath := path\<rparr> =
     \<lparr>Height = 0, Round = 0, Step = 0, EphemeralPublic = None, Signature = None,
      SignBytes = None, filePath = path\<rparr>"
  by (simp add: emptySignState_def)

text \<open>
  C10 (amended). For every file path, \<open>LoadOrCreateSignState\<close> never returns a
  non-nil error. When the state file cannot be read or fails to parse, the load
  error is dropped: the function saves the state with the empty watermark (height
  0, round 0, step 0, no signature, no sign bytes) under the path and, if that
  \<open>Save\<close> returns, returns this state with a nil error and the file system \<open>Save\<close>
  left; if that \<open>Save\<close> panics, so does the function. When the load succeeds, the
  loaded state is returned and nothing is written.
\<close>

theorem LoadOrCreateSignState_resets_on_load_error:
  "(\<forall>st e fs'. LoadOrCreateSignState cdc os fs path \<noteq> Returns (st, Some e, fs'))
   \<and> (isl (ReadFile os fs path) \<or>
        (\<exists>b. ReadFile os fs path = Inr b \<and> snd (UnmarshalJSON cdc b emptySignState) \<noteq> None) \<longrightarrow>
      (\<forall>fs'. Save cdc os \<lparr>Height = 0, Round = 0, Step = 0, EphemeralPublic = None,
                 Signature = None, SignBytes = None, filePath = path\<rparr> fs = Returns fs' \<longrightarrow>
         LoadOrCreateSignState cdc os fs path =
           Returns (\<lparr>Height = 0, Round = 0, Step = 0, EphemeralPublic = None,
                     Signature = None, SignBytes = None, filePath = path\<rparr>, None, fs'))
      \<and> (\<forall>p. Save cdc os \<lparr>Height = 0, Round = 0, Step = 0, EphemeralPublic = None,
                 Signature = None, SignBytes = None, filePath = path\<rparr> fs = Panics p \<longrightarrow>
         LoadOrCreateSignState cdc os fs path = Panics p))
   \<and> (\<forall>st. LoadSignState cdc os fs path = (st, None) \<longrightarrow>
        LoadOrCreateSignState cdc os fs path = Returns (st, None, fs))"
proof (intro conjI allI impI)
  fix st e fs'
  show "LoadOrCreateSignState cdc os fs path \<noteq> Returns (st, Some e, fs')"
    by (rule LoadOrCreate_no_error)
next
  fix fs'
  assume "isl (ReadFile os fs path) \<or>
        (\<exists>b. ReadFile os fs path = Inr b \<and> snd (UnmarshalJSON cdc b emptySignState) \<noteq> None)"
  then have failed: "snd (LoadSignState cdc os fs path) \<noteq> None"
    by (simp only: LoadSignState_error_iff)
  assume "Save cdc os \<lparr>Height = 0, Round = 0, Step = 0, EphemeralPublic = None,
                 Signature = None, SignBytes = None, filePath = path\<rparr> fs = Returns fs'"
  then show "LoadOrCreateSignState cdc os fs path =
           Returns (\<lparr>Height = 0, Round = 0, Step = 0, EphemeralPublic = None,
                     Signature = None, SignBytes = None, filePath = path\<rparr>, None, fs')"
    by (simp add: LoadOrCreate_load_failed [OF failed] emptySignState_at)
next
  fix p
  assume "isl (ReadFile os fs path) \<or>
        (\<exists>b. ReadFile os fs path = Inr b \<and> snd (UnmarshalJSON cdc b emptySignState) \<noteq> None)"
  then have failed: "snd (LoadSignState cdc os fs path) \<noteq> None"
    by (simp only: LoadSignState_error_iff)
  assume "Save cdc os \<lparr>Height = 0, Round = 0, Step = 0, EphemeralPublic = None,
                 Signature = None, SignBytes = None, filePath = path\<rparr> fs = Panics p"
  then show "LoadOrCreateSignState cdc os fs path = Panics p"
    by (simp add: LoadOrCreate_load_failed [OF failed] emptySignState_at)
next
  fix st
  assume "LoadSignState cdc os fs path = (st, None)"
  then show "LoadOrCreateSignState cdc os fs path = Returns (st, None, fs)"
    by (rule LoadOrCreate_loaded)
qed

theorem LoadOrCreateSignState_resets_on_load_error_witness:
  "LoadOrCreateSignState sampleCodec sampleOS
      (Map.empty(''state.json'' \<mapsto> (Some [1, 2], 384))) ''state.json''
     = Returns (\<lparr>Height = 0, Round = 0, Step = 0, EphemeralPublic = None, Signature = None,
                 SignBytes = None, filePath = ''state.json''\<rparr>, None,
                (Map.empty(''state.json'' \<mapsto> (Some [1, 2], 384)))
                  (''state.json'' \<mapsto> (Some [0, 0, 0], 384)))"
proof -
  let ?fs = "Map.empty(''state.json'' \<mapsto> (Some [1, 2 :: byte], 384 :: nat))"
  let ?E = "\<lparr>Height = 0, Round = 0, Step = 0, EphemeralPublic = None, Signature = None,
             SignBytes = None, filePath = ''state.json''\<rparr>"
  have rd: "ReadFile sampleOS ?fs ''state.json'' = Inr (Some [1, 2])"
    by (simp add: sampleOS_def)
  have "snd (UnmarshalJSON sampleCodec (Some [1, 2]) emptySignState) \<noteq> None"
    by (simp add: sampleCodec_def)
  with rd have bad: "isl (ReadFile sampleOS ?fs ''state.json'') \<or>
      (\<exists>b. ReadFile sampleOS ?fs ''state.json'' = Inr b \<and>
           snd (UnmarshalJSON sampleCodec b emptySignState) \<noteq> None)"
    by blast
  have sv: "Save sampleCodec sampleOS ?E ?fs = Returns (?fs(''state.json'' \<mapsto> (Some [0, 0, 0], 384)))"
    by (simp add: Save_def sampleCodec_def sampleOS_def perm0600_def)
  from LoadOrCreateSignState_resets_on_load_error [of sampleCodec sampleOS ?fs "''state.json''"]
  have "\<forall>fs'. Save sampleCodec sampleOS ?E ?fs = Returns fs' \<longrightarrow>
         LoadOrCreateSignState sampleCodec sampleOS ?fs ''state.json'' = Returns (?E, None, fs')"
    using bad by blast
  with sv show ?thesis by blast
qed

text \<open>
  C10 as stated fails: at the empty path the load fails, and the \<open>Save\<close> of the
  empty state panics, so \<open>LoadOrCreateSignState\<close> returns nothing, neither a state
  nor a nil error.
\<close>

theorem LoadOrCreateSignState_panics_counterexample:
  "LoadOrCreateSignState sampleCodec sampleOS Map.empty ''''
     = Panics (PanicMsg ''cannot save SignState: filePath not set'')"
  by (simp add: LoadOrCreateSignState_def LoadSignState_def Save_def sampleOS_def
        emptySignState_def)

section \<open>Properties of the reconnecting remote signer\<close>

lemma handleRequest_SignVote_error:
  "snd (SignVote (privVal rs) (chainID rs) vote) = Some e \<Longrightarrow>
   handleRequest rs (SignVoteRequest vote) =
     (Some (SignedVoteResponse None (Some \<lparr>Code = 0, Description = Error e\<rparr>)), Some e)"
  by (cases "SignVote (privVal rs) (chainID rs) vote") (simp add: handleRequest_def)

lemma handleRequest_SignProposal_error:
  "snd (SignProposal (privVal rs) (chainID rs) proposal) = Some e \<Longrightarrow>
   handleRequest rs (SignProposalRequest proposal) =
     (Some (SignedProposalResponse None (Some \<lparr>Code = 0, Description = Error e\<rparr>)), Some e)"
  by (cases "SignProposal (privVal rs) (chainID rs) proposal") (simp add: handleRequest_def)

lemma handleRequest_PubKey_error:
  "snd (GetPubKey (privVal rs)) = Some e \<Longrightarrow>
   handleRequest rs PubKeyRequest =
     (Some (PubKeyResponse None (Some \<lparr>Code = 0, Description = Error e\<rparr>)), None)"
  by (cases "GetPubKey (privVal rs)") (simp add: handleRequest_def)

lemma handleRequest_code_zero:
  assumes "fst (handleRequest rs req) = Some res" and "responseError res = Some re"
  shows "Code re = 0"
proof (cases req)
  case PubKeyRequest
  with assms show ?thesis
    by (cases "GetPubKey (privVal rs)")
       (auto simp: handleRequest_def responseError_def split: option.splits)
next
  case (SignVoteRequest vote)
  with assms show ?thesis
    by (cases "SignVote (privVal rs) (chainID rs) vote")
       (auto simp: handleRequest_def responseError_def split: option.splits)
next
  case (SignProposalRequest proposal)
  with assms show ?thesis
    by (cases "SignProposal (privVal rs) (chainID rs) proposal")
       (auto simp: handleRequest_def responseError_def split: option.splits)
next
  case PingRequest
  with assms show ?thesis
    by (auto simp: handleRequest_def responseError_def)
next
  case (OtherRequest shown)
  with assms show ?thesis
    by (simp add: handleRequest_def)
qed

lemma loopServe_read_error:
  "readMsg = Inl err \<Longrightarrow> loopServe rs conn readMsg writeMsg = (None, [conn])"
  by (simp add: loopServe_def)

lemma loopServe_request:
  "readMsg = Inr req \<Longrightarrow>
   loopServe rs conn readMsg writeMsg =
     (if writeMsg (fst (handleRequest rs req)) = None then (Some conn, []) else (None, [conn]))"
  by (cases "handleRequest rs req") (auto simp: loopServe_def split: option.splits)

lemma loopServe_closes_iff:
  "fst (loopServe rs conn readMsg writeMsg) = None \<longleftrightarrow>
     isl readMsg \<or> (\<exists>req. readMsg = Inr req \<and> writeMsg (fst (handleRequest rs req)) \<noteq> None)"
  by (cases readMsg) (simp_all add: loopServe_read_error loopServe_request)

lemma loopServe_closed_list:
  "snd (loopServe rs conn readMsg writeMsg) =
     (if fst (loopServe rs conn readMsg writeMsg) = None then [conn] else [])"
  by (cases readMsg) (simp_all add: loopServe_read_error loopServe_request)

text \<open>
  C6. When the validator fails a sign-vote, sign-proposal or get-pubkey request,
  \<open>handleRequest\<close> answers with the response for that request carrying no signed
  object and a structured error whose code is zero and whose description is the
  error's text; every structured error in any response has code zero. On an open
  connection the loop closes the connection (and so dials again) exactly when
  reading the request or writing the response fails: when both succeed the
  connection is kept, whatever the signing operation returned.
\<close>

theorem handleRequest_error_response_keeps_connection:
  "(snd (SignVote (privVal rs) (chainID rs) vote) = Some e \<longrightarrow>
      fst (handleRequest rs (SignVoteRequest vote)) =
        Some (SignedVoteResponse None (Some \<lparr>Code = 0, Description = Error e\<rparr>)))
   \<and> (snd (SignProposal (privVal rs) (chainID rs) proposal) = Some e \<longrightarrow>
      fst (handleRequest rs (SignProposalRequest proposal)) =
        Some (SignedProposalResponse None (Some \<lparr>Code = 0, Description = Error e\<rparr>)))
   \<and> (snd (GetPubKey (privVal rs)) = Some e \<longrightarrow>
      fst (handleRequest rs PubKeyRequest) =
        Some (PubKeyResponse None (Some \<lparr>Code = 0, Description = Error e\<rparr>)))
   \<and> (\<forall>res re. fst (handleRequest rs req) = Some res \<longrightarrow> responseError res = Some re \<longrightarrow>
        Code re = 0)
   \<and> (fst (loopServe rs conn readMsg writeMsg) = None \<longleftrightarrow>
        isl readMsg \<or>
        (\<exists>r. readMsg = Inr r \<and> writeMsg (fst (handleRequest rs r)) \<noteq> None))
   \<and> snd (loopServe rs conn readMsg writeMsg) =
        (if fst (loopServe rs conn readMsg writeMsg) = None then [conn] else [])
   \<and> (readMsg = Inr req \<longrightarrow> writeMsg (fst (handleRequest rs req)) = None \<longrightarrow>
        loopServe rs conn readMsg writeMsg = (Some conn, []))"
proof (intro conjI impI allI)
  assume "snd (SignVote (privVal rs) (chainID rs) vote) = Some e"
  then show "fst (handleRequest rs (SignVoteRequest vote)) =
        Some (SignedVoteResponse None (Some \<lparr>Code = 0, Description = Error e\<rparr>))"
    by (simp add: handleRequest_SignVote_error)
next
  assume "snd (SignProposal (privVal rs) (chainID rs) proposal) = Some e"
  then show "fst (handleRequest rs (SignProposalRequest proposal)) =
        Some (SignedProposalResponse None (Some \<lparr>Code = 0, Description = Error e\<rparr>))"
    by (simp add: handleRequest_SignProposal_error)
next
  assume "snd (GetPubKey (privVal rs)) = Some e"
  then show "fst (handleRequest rs PubKeyRequest) =
        Some (PubKeyResponse None (Some \<lparr>Code = 0, Description = Error e\<rparr>))"
    by (simp add: handleRequest_PubKey_error)
next
  fix res re
  assume "fst (handleRequest rs req) = Some res" and "responseError res = Some re"
  then show "Code re = 0"
    by (rule handleRequest_code_zero)
next
  show "fst (loopServe rs conn readMsg writeMsg) = None \<longleftrightarrow>
        isl readMsg \<or>
        (\<exists>r. readMsg = Inr r \<and> writeMsg (fst (handleRequest rs r)) \<noteq> None)"
    by (rule loopServe_closes_iff)
next
  show "snd (loopServe rs conn readMsg writeMsg) =
        (if fst (loopServe rs conn readMsg writeMsg) = None then [conn] else [])"
    by (rule loopServe_closed_list)
next
  assume "readMsg = Inr req" and "writeMsg (fst (handleRequest rs req)) = None"
  then show "loopServe rs conn readMsg writeMsg = (Some conn, [])"
    by (simp add: loopServe_request)
qed

theorem handleRequest_error_response_keeps_connection_witness:
  "handleRequest
      \<lparr>address = ''tcp://node:1234'', chainID = ''chain'',
       privVal = \<lparr>GetPubKey = (None :: bytes option, Some (LibError ''no key'')),
                  SignVote = (\<lambda>c (v :: nat). (v, Some (HeightRegression 9 10))),
                  SignProposal = (\<lambda>c (p :: nat). (p, Some NoSignBytesFound))\<rparr>\<rparr>
      (SignVoteRequest 5)
     = (Some (SignedVoteResponse None
          (Some \<lparr>Code = 0, Description = ''height regression. Got 9, last height 10''\<rparr>)),
        Some (HeightRegression 9 10))
   \<and> loopServe
      \<lparr>address = ''tcp://node:1234'', chainID = ''chain'',
       privVal = \<lparr>GetPubKey = (None :: bytes option, Some (LibError ''no key'')),
                  SignVote = (\<lambda>c (v :: nat). (v, Some (HeightRegression 9 10))),
                  SignProposal = (\<lambda>c (p :: nat). (p, Some NoSignBytesFound))\<rparr>\<rparr>
      (1 :: nat) (Inr (SignVoteRequest 5)) (\<lambda>res. None)
     = (Some 1, [])"
proof -
  let ?rs = "\<lparr>address = ''tcp://node:1234'', chainID = ''chain'',
       privVal = \<lparr>GetPubKey = (None :: bytes option, Some (LibError ''no key'')),
                  SignVote = (\<lambda>c (v :: nat). (v, Some (HeightRegression 9 10))),
                  SignProposal = (\<lambda>c (p :: nat). (p, Some NoSignBytesFound))\<rparr>\<rparr>"
  note inst = handleRequest_error_response_keeps_connection
    [of ?rs 5 "HeightRegression 9 10" 0 "SignVoteRequest 5" "1 :: nat"
        "Inr (SignVoteRequest 5)" "\<lambda>res. None"]
  have failed: "snd (SignVote (privVal ?rs) (chainID ?rs) 5) = Some (HeightRegression 9 10)"
    by simp
  have "fst (handleRequest ?rs (SignVoteRequest 5)) =
      Some (SignedVoteResponse None
        (Some \<lparr>Code = 0, Description = Error (HeightRegression 9 10)\<rparr>))"
    using inst failed by blast
  moreover have "snd (handleRequest ?rs (SignVoteRequest 5)) = Some (HeightRegression 9 10)"
    by (simp add: handleRequest_def)
  moreover have "Error (HeightRegression 9 10) = ''height regression. Got 9, last height 10''"
    by code_simp
  ultimately have first: "handleRequest ?rs (SignVoteRequest 5)
     = (Some (SignedVoteResponse None
          (Some \<lparr>Code = 0, Description = ''height regression. Got 9, last height 10''\<rparr>)),
        Some (HeightRegression 9 10))"
    by (simp add: prod_eq_iff)
  have "loopServe ?rs (1 :: nat) (Inr (SignVoteRequest 5)) (\<lambda>res. None) = (Some 1, [])"
    using inst by blast
  with first show ?thesis by blast
qed

section \<open>Round trip of the cosigner key file\<close>

lemma marshal_parse_PubKeys:
  assumes "\<forall>pk \<in> set ks. \<forall>b. MarshalPKCS1PublicKey L pk = Returns b \<longrightarrow>
             (\<exists>key. pk = Some key \<and> ParsePKCS1PublicKey L b = Inr key)"
    and "marshalPubKeys L ks acc = Returns out"
  shows "\<exists>bs. out = acc @ bs \<and> (\<forall>keys. parsePubKeys L bs keys = (keys @ ks, None))"
  using assms
proof (induction ks arbitrary: acc out)
  case Nil
  then show ?case by simp
next
  case (Cons pk ks)
  from Cons.prems(2) obtain b where b: "MarshalPKCS1PublicKey L pk = Returns b"
    and rest: "marshalPubKeys L ks (acc @ [b]) = Returns out"
    by (auto split: outcome.splits)
  from Cons.prems(1) b obtain key where key: "pk = Some key" "ParsePKCS1PublicKey L b = Inr key"
    by auto
  from Cons.prems(1) have "\<forall>pk \<in> set ks. \<forall>b. MarshalPKCS1PublicKey L pk = Returns b \<longrightarrow>
             (\<exists>key. pk = Some key \<and> ParsePKCS1PublicKey L b = Inr key)"
    by simp
  from Cons.IH [OF this rest] obtain bs where bs: "out = (acc @ [b]) @ bs"
    and parse: "\<forall>keys. parsePubKeys L bs keys = (keys @ ks, None)"
    by blast
  have "out = acc @ (b # bs)" using bs by simp
  moreover have "\<forall>keys. parsePubKeys L (b # bs) keys = (keys @ pk # ks, None)"
    using key parse by simp
  ultimately show ?case by blast
qed

lemma round_trip_with:
  assumes priv: "\<forall>b. MarshalPKCS1PrivateKey L (RSAKey k) = Returns b \<longrightarrow>
                   ParsePKCS1PrivateKey L b = Inr (RSAKey k)"
    and peers: "\<forall>pk \<in> set (CosignerKeys k). \<forall>b. MarshalPKCS1PublicKey L pk = Returns b \<longrightarrow>
                   (\<exists>key. pk = Some key \<and> ParsePKCS1PublicKey L b = Inr key)"
    and json: "\<forall>a. Alias a = k \<longrightarrow> json_Marshal L a = (data, None) \<longrightarrow>
                 json_Unmarshal L data
                     \<lparr>aux_RSAKey = None, aux_Pubkey = None, aux_CosignerKeys = [], Alias = k0\<rparr>
                   = (a\<lparr>Alias := k0\<lparr>ShareKey := ShareKey k, ID := ID k\<rparr>\<rparr>, None)"
    and pub: "\<forall>bz. enc (PubKey k) = Inr bz \<longrightarrow> dec bz = Inr (PubKey k)"
    and m: "MarshalJSON_with L enc k = Returns (data, None)"
  shows "UnmarshalJSON_with L dec k0 data = (k, None)"
proof -
  from m obtain privateBytes where pb: "MarshalPKCS1PrivateKey L (RSAKey k) = Returns privateBytes"
    by (auto simp: MarshalJSON_with_def split: outcome.splits)
  from m pb obtain rsaPubKeysBytes
    where pubs: "marshalPubKeys L (CosignerKeys k) [] = Returns rsaPubKeysBytes"
    by (auto simp: MarshalJSON_with_def split: outcome.splits)
  from m pb pubs obtain protoBytes where pk: "enc (PubKey k) = Inr protoBytes"
    by (auto simp: MarshalJSON_with_def split: sum.splits)
  let ?a = "\<lparr>aux_RSAKey = privateBytes, aux_Pubkey = protoBytes,
             aux_CosignerKeys = rsaPubKeysBytes, Alias = k\<rparr>"
  from m pb pubs pk have js: "json_Marshal L ?a = (data, None)"
    by (simp add: MarshalJSON_with_def)
  have "Alias ?a = k" by simp
  with json js have un: "json_Unmarshal L data
        \<lparr>aux_RSAKey = None, aux_Pubkey = None, aux_CosignerKeys = [], Alias = k0\<rparr>
      = (?a\<lparr>Alias := k0\<lparr>ShareKey := ShareKey k, ID := ID k\<rparr>\<rparr>, None)"
    by blast
  from priv pb have ppriv: "ParsePKCS1PrivateKey L privateBytes = Inr (RSAKey k)"
    by simp
  from pub pk have ppk: "dec protoBytes = Inr (PubKey k)"
    by simp
  from marshal_parse_PubKeys [OF peers pubs]
  have ppubs: "parsePubKeys L rsaPubKeysBytes [] = (CosignerKeys k, None)"
    by auto
  show ?thesis
    by (simp add: UnmarshalJSON_with_def un ppriv ppk ppubs)
qed

lemma proto_codec_inverts:
  assumes "\<forall>pp bz. PubKeyToProto P pk = Inr pp \<longrightarrow> proto_Marshal P pp = (bz, None) \<longrightarrow>
             proto_Unmarshal P bz = Inr pp \<and> PubKeyFromProto P pp = Inr pk"
  shows "\<forall>bz. encodeProto P pk = Inr bz \<longrightarrow> decodeProto P bz = Inr pk"
proof (intro allI impI)
  fix bz
  assume e: "encodeProto P pk = Inr bz"
  then obtain pp where pp: "PubKeyToProto P pk = Inr pp"
    by (auto simp: encodeProto_def split: sum.splits)
  with e have "proto_Marshal P pp = (bz, None)"
    by (auto simp: encodeProto_def split: prod.splits option.splits)
  with assms pp have "proto_Unmarshal P bz = Inr pp \<and> PubKeyFromProto P pp = Inr pk"
    by blast
  then show "decodeProto P bz = Inr pk"
    by (simp add: decodeProto_def)
qed

lemma amino_codec_inverts:
  assumes "pk = Some (PubKeyEd25519 ed)"
    and "\<forall>bz. MarshalBinaryBare A pk = (bz, None) \<longrightarrow> UnmarshalBinaryBareEd25519 A bz = Inr ed"
  shows "\<forall>bz. encodeAmino A pk = Inr bz \<longrightarrow> decodeAmino A bz = Inr pk"
proof (intro allI impI)
  fix bz
  assume "encodeAmino A pk = Inr bz"
  then have "MarshalBinaryBare A pk = (bz, None)"
    by (auto simp: encodeAmino_def split: prod.splits option.splits)
  with assms(2) have "UnmarshalBinaryBareEd25519 A bz = Inr ed"
    by blast
  with assms(1) show "decodeAmino A bz = Inr pk"
    by (simp add: decodeAmino_def)
qed

lemma UnmarshalJSON_with_PubKey:
  assumes "UnmarshalJSON_with L dec k0 data = (k, None)"
  shows "\<exists>bz. dec bz = Inr (PubKey k)"
  using assms
  by (auto simp: UnmarshalJSON_with_def split: prod.splits option.splits sum.splits)

lemma amino_decodes_Ed25519_only:
  assumes "\<forall>ed. PubKey k \<noteq> Some (PubKeyEd25519 ed)"
  shows "UnmarshalJSON_key_amino A L k0 data \<noteq> (k, None)"
proof
  assume "UnmarshalJSON_key_amino A L k0 data = (k, None)"
  then obtain bz where "decodeAmino A bz = Inr (PubKey k)"
    unfolding UnmarshalJSON_key_amino_def by (blast dest: UnmarshalJSON_with_PubKey)
  then have "\<exists>ed. Some (PubKeyEd25519 ed) = PubKey k"
    by (cases "UnmarshalBinaryBareEd25519 A bz") (auto simp: decodeAmino_def)
  then obtain ed where "PubKey k = Some (PubKeyEd25519 ed)"
    by metis
  with assms show False by blast
qed

text \<open>
  C8 (amended). Take a key for whose parts the libraries invert each other:
  parsing inverts the PKCS#1 encoding of the RSA private key and of every peer RSA
  public key, and \<open>json.Unmarshal\<close> on the document restores the three byte fields
  and writes the two fields of the embedded key that they do not shadow (secret
  share and id). In the version of the file that encodes the validator public key
  through protobuf, if decoding inverts that encoding, then unmarshalling the
  bytes \<open>MarshalJSON\<close> produced, into any key, gives back the original key, field
  for field, the peer keys in their order. In the version that encodes it through
  amino the same holds when the validator public key is an Ed25519 key; a key
  whose validator public key is of another type is never what \<open>UnmarshalJSON\<close>
  returns there.
\<close>

theorem CosignerKey_json_round_trip:
  assumes "\<forall>b. MarshalPKCS1PrivateKey L (RSAKey k) = Returns b \<longrightarrow>
                   ParsePKCS1PrivateKey L b = Inr (RSAKey k)"
    and "\<forall>pk \<in> set (CosignerKeys k). \<forall>b. MarshalPKCS1PublicKey L pk = Returns b \<longrightarrow>
                   (\<exists>key. pk = Some key \<and> ParsePKCS1PublicKey L b = Inr key)"
    and "\<forall>a. Alias a = k \<longrightarrow> json_Marshal L a = (data, None) \<longrightarrow>
                 json_Unmarshal L data
                     \<lparr>aux_RSAKey = None, aux_Pubkey = None, aux_CosignerKeys = [], Alias = k0\<rparr>
                   = (a\<lparr>Alias := k0\<lparr>ShareKey := ShareKey k, ID := ID k\<rparr>\<rparr>, None)"
  shows "((\<forall>pp bz. PubKeyToProto P (PubKey k) = Inr pp \<longrightarrow> proto_Marshal P pp = (bz, None) \<longrightarrow>
             proto_Unmarshal P bz = Inr pp \<and> PubKeyFromProto P pp = Inr (PubKey k)) \<longrightarrow>
            MarshalJSON P L k = Returns (data, None) \<longrightarrow>
            UnmarshalJSON_key P L k0 data = (k, None))
       \<and> (PubKey k = Some (PubKeyEd25519 ed) \<longrightarrow>
            (\<forall>bz. MarshalBinaryBare A (PubKey k) = (bz, None) \<longrightarrow>
               UnmarshalBinaryBareEd25519 A bz = Inr ed) \<longrightarrow>
            MarshalJSON_amino A L k = Returns (data, None) \<longrightarrow>
            UnmarshalJSON_key_amino A L k0 data = (k, None))
       \<and> ((\<forall>ed'. PubKey k \<noteq> Some (PubKeyEd25519 ed')) \<longrightarrow>
            UnmarshalJSON_key_amino A L k0 data \<noteq> (k, None))"
proof (intro conjI impI)
  assume "\<forall>pp bz. PubKeyToProto P (PubKey k) = Inr pp \<longrightarrow> proto_Marshal P pp = (bz, None) \<longrightarrow>
             proto_Unmarshal P bz = Inr pp \<and> PubKeyFromProto P pp = Inr (PubKey k)"
  then have "\<forall>bz. encodeProto P (PubKey k) = Inr bz \<longrightarrow> decodeProto P bz = Inr (PubKey k)"
    by (rule proto_codec_inverts)
  moreover assume "MarshalJSON P L k = Returns (data, None)"
  ultimately show "UnmarshalJSON_key P L k0 data = (k, None)"
    using assms unfolding MarshalJSON_def UnmarshalJSON_key_def
    by (intro round_trip_with)
next
  assume "PubKey k = Some (PubKeyEd25519 ed)"
    and "\<forall>bz. MarshalBinaryBare A (PubKey k) = (bz, None) \<longrightarrow>
               UnmarshalBinaryBareEd25519 A bz = Inr ed"
  then have "\<forall>bz. encodeAmino A (PubKey k) = Inr bz \<longrightarrow> decodeAmino A bz = Inr (PubKey k)"
    by (rule amino_codec_inverts)
  moreover assume "MarshalJSON_amino A L k = Returns (data, None)"
  ultimately show "UnmarshalJSON_key_amino A L k0 data = (k, None)"
    using assms unfolding MarshalJSON_amino_def UnmarshalJSON_key_amino_def
    by (intro round_trip_with)
next
  assume "\<forall>ed'. PubKey k \<noteq> Some (PubKeyEd25519 ed')"
  then show "UnmarshalJSON_key_amino A L k0 data \<noteq> (k, None)"
    by (rule amino_decodes_Ed25519_only)
qed

theorem CosignerKey_json_round_trip_witness:
  "MarshalJSON sampleProto (sampleLibs (Some [10, 1, 2]) sampleKey) sampleKey
       = Returns (sampleKeyJSON, None)
   \<and> UnmarshalJSON_key sampleProto (sampleLibs (Some [10, 1, 2]) sampleKey) emptyCosignerKey
         sampleKeyJSON = (sampleKey, None)
   \<and> MarshalJSON_amino sampleAmino (sampleLibs (Some [22, 1, 2]) sampleKey) sampleKey
       = Returns (sampleKeyJSON, None)
   \<and> UnmarshalJSON_key_amino sampleAmino (sampleLibs (Some [22, 1, 2]) sampleKey) emptyCosignerKey
         sampleKeyJSON = (sampleKey, None)"
proof -
  have priv: "\<forall>b. MarshalPKCS1PrivateKey (sampleLibs pub sampleKey) (RSAKey sampleKey) = Returns b \<longrightarrow>
      ParsePKCS1PrivateKey (sampleLibs pub sampleKey) b = Inr (RSAKey sampleKey)" for pub
    by (auto simp: sampleLibs_def sampleKey_def)
  have peers: "\<forall>pk \<in> set (CosignerKeys sampleKey).
      \<forall>b. MarshalPKCS1PublicKey (sampleLibs pub sampleKey) pk = Returns b \<longrightarrow>
        (\<exists>key. pk = Some key \<and> ParsePKCS1PublicKey (sampleLibs pub sampleKey) b = Inr key)" for pub
    by (auto simp: sampleLibs_def sampleKey_def)
  have json: "\<forall>a. Alias a = sampleKey \<longrightarrow>
      json_Marshal (sampleLibs pub sampleKey) a = (sampleKeyJSON, None) \<longrightarrow>
      json_Unmarshal (sampleLibs pub sampleKey) sampleKeyJSON
          \<lparr>aux_RSAKey = None, aux_Pubkey = None, aux_CosignerKeys = [], Alias = emptyCosignerKey\<rparr>
        = (a\<lparr>Alias := emptyCosignerKey\<lparr>ShareKey := ShareKey sampleKey, ID := ID sampleKey\<rparr>\<rparr>,
           None)" for pub
    by (auto simp: sampleLibs_def sampleAux_def sampleKeyJSON_def split: if_splits)
  have proto: "\<forall>pp bz. PubKeyToProto sampleProto (PubKey sampleKey) = Inr pp \<longrightarrow>
      proto_Marshal sampleProto pp = (bz, None) \<longrightarrow>
      proto_Unmarshal sampleProto bz = Inr pp \<and> PubKeyFromProto sampleProto pp = Inr (PubKey sampleKey)"
    by (auto simp: sampleProto_def sampleKey_def)
  have ed: "PubKey sampleKey = Some (PubKeyEd25519 [1, 2])"
    by (simp add: sampleKey_def)
  have amino: "\<forall>bz. MarshalBinaryBare sampleAmino (PubKey sampleKey) = (bz, None) \<longrightarrow>
      UnmarshalBinaryBareEd25519 sampleAmino bz = Inr [1, 2]"
    by (auto simp: sampleAmino_def sampleKey_def)
  have m1: "MarshalJSON sampleProto (sampleLibs (Some [10, 1, 2]) sampleKey) sampleKey
              = Returns (sampleKeyJSON, None)"
    by (simp add: MarshalJSON_def MarshalJSON_with_def encodeProto_def sampleProto_def
          sampleLibs_def sampleKey_def sampleAux_def)
  have m2: "MarshalJSON_amino sampleAmino (sampleLibs (Some [22, 1, 2]) sampleKey) sampleKey
              = Returns (sampleKeyJSON, None)"
    by (simp add: MarshalJSON_amino_def MarshalJSON_with_def encodeAmino_def sampleAmino_def
          sampleLibs_def sampleKey_def sampleAux_def)
  from CosignerKey_json_round_trip [OF priv [of "Some [10, 1, 2]"] peers [of "Some [10, 1, 2]"]
      json [of "Some [10, 1, 2]"], where P = sampleProto and A = sampleAmino]
    proto m1
  have u1: "UnmarshalJSON_key sampleProto (sampleLibs (Some [10, 1, 2]) sampleKey) emptyCosignerKey
              sampleKeyJSON = (sampleKey, None)"
    by blast
  from CosignerKey_json_round_trip [OF priv [of "Some [22, 1, 2]"] peers [of "Some [22, 1, 2]"]
      json [of "Some [22, 1, 2]"], where P = sampleProto and A = sampleAmino and ed = "[1, 2]"]
    ed amino m2
  have u2: "UnmarshalJSON_key_amino sampleAmino (sampleLibs (Some [22, 1, 2]) sampleKey) emptyCosignerKey
              sampleKeyJSON = (sampleKey, None)"
    by blast
  from m1 u1 m2 u2 show ?thesis by blast
qed

text \<open>
  C8 as stated fails in the amino version of the file: for a key whose validator
  public key is not an Ed25519 key, \<open>MarshalJSON\<close> produces bytes, and unmarshalling
  them returns an error and not the original key.
\<close>

theorem CosignerKey_amino_round_trip_counterexample:
  "MarshalJSON_amino sampleAmino (sampleLibs (Some [33, 4, 5]) otherKey) otherKey
       = Returns (sampleKeyJSON, None)
   \<and> UnmarshalJSON_key_amino sampleAmino (sampleLibs (Some [33, 4, 5]) otherKey) emptyCosignerKey
         sampleKeyJSON
       = (emptyCosignerKey\<lparr>ShareKey := Some [9], ID := 3\<rparr>, Some (LibError ''unexpected EOF''))
   \<and> UnmarshalJSON_key_amino sampleAmino (sampleLibs (Some [33, 4, 5]) otherKey) emptyCosignerKey
         sampleKeyJSON
       \<noteq> (otherKey, None)"
  by (simp add: MarshalJSON_amino_def MarshalJSON_with_def encodeAmino_def sampleAmino_def
        UnmarshalJSON_key_amino_def UnmarshalJSON_with_def decodeAmino_def
        sampleLibs_def sampleKey_def otherKey_def sampleAux_def)

section \<open>Startup checks of main\<close>

lemma cosignerPeers_bad_id:
  "\<exists>c \<in> set cs. cosigner_ID c < 1 \<or> int (length (CosignerKeys key)) < cosigner_ID c \<Longrightarrow>
   isl (cosignerPeers key cs peers)"
proof (induction cs arbitrary: peers)
  case Nil
  then show ?case by simp
next
  case (Cons c cs)
  show ?case
  proof (cases "cosigner_ID c < 1 \<or> int (length (CosignerKeys key)) < cosigner_ID c")
    case True
    then show ?thesis by auto
  next
    case False
    with Cons.prems have "\<exists>c \<in> set cs. cosigner_ID c < 1 \<or> int (length (CosignerKeys key)) < cosigner_ID c"
      by auto
    from Cons.IH [OF this] False show ?thesis
      by (auto split: option.splits)
  qed
qed

lemma cosignerPeers_stop_not_Wait:
  "cosignerPeers key cs peers = Inl stop \<Longrightarrow> stop \<noteq> Wait"
  by (induction cs arbitrary: peers) (auto split: if_splits option.splits)

lemma main_no_flag:
  "flag_config env = '''' \<Longrightarrow>
   main cdc os unmarshalKey env fs = (Panic (PanicMsg ''--config flag is required''), [])"
  by (simp add: main_def)

lemma main_no_chain_id:
  "flag_config env \<noteq> '''' \<Longrightarrow> LoadConfigFromFile env (flag_config env) = Inr config \<Longrightarrow>
   ChainID config = '''' \<Longrightarrow>
   main cdc os unmarshalKey env fs = (Exit ''chain_id option is required'', [])"
  by (simp add: main_def)

lemma main_unsupported_mode:
  "flag_config env \<noteq> '''' \<Longrightarrow> LoadConfigFromFile env (flag_config env) = Inr config \<Longrightarrow>
   ChainID config \<noteq> '''' \<Longrightarrow> Mode config \<noteq> ''single'' \<Longrightarrow> Mode config \<noteq> ''mpc'' \<Longrightarrow>
   main cdc os unmarshalKey env fs = (Exit (''Unsupported mode: '' @ Mode config), [])"
  by (simp add: main_def)

lemma main_mpc_no_threshold:
  "flag_config env \<noteq> '''' \<Longrightarrow> LoadConfigFromFile env (flag_config env) = Inr config \<Longrightarrow>
   ChainID config \<noteq> '''' \<Longrightarrow> Mode config = ''mpc'' \<Longrightarrow> CosignerThreshold config = 0 \<Longrightarrow>
   main cdc os unmarshalKey env fs =
     (Exit ''The `cosigner_threshold` option is required in `threshold` mode'', [])"
  by (simp add: main_def)

lemma main_mpc_no_listen_address:
  "flag_config env \<noteq> '''' \<Longrightarrow> LoadConfigFromFile env (flag_config env) = Inr config \<Longrightarrow>
   ChainID config \<noteq> '''' \<Longrightarrow> Mode config = ''mpc'' \<Longrightarrow> CosignerThreshold config \<noteq> 0 \<Longrightarrow>
   ListenAddress config = '''' \<Longrightarrow>
   main cdc os unmarshalKey env fs =
     (Exit ''The cosigner_listen_address option is required in `threshold` mode'', [])"
  by (simp add: main_def)

lemma main_mpc_bad_cosigner_id:
  assumes "flag_config env \<noteq> ''''" and "LoadConfigFromFile env (flag_config env) = Inr config"
    and "ChainID config \<noteq> ''''" and "Mode config = ''mpc''"
    and "CosignerThreshold config \<noteq> 0" and "ListenAddress config \<noteq> ''''"
    and bad: "\<exists>c \<in> set (Cosigners config). cosigner_ID c < 1 \<or>
           int (length (CosignerKeys
             (fst (LoadCosignerKey unmarshalKey os fs (PrivValKeyFile config))))) < cosigner_ID c"
  shows "terminatedBeforeServing (main cdc os unmarshalKey env fs)"
proof -
  obtain key kerr where k: "LoadCosignerKey unmarshalKey os fs (PrivValKeyFile config) = (key, kerr)"
    by (cases "LoadCosignerKey unmarshalKey os fs (PrivValKeyFile config)")
  from bad k have peers: "\<And>peers. isl (cosignerPeers key (Cosigners config) peers)"
    by (simp add: cosignerPeers_bad_id)
  have stop: "\<And>peers e. cosignerPeers key (Cosigners config) peers = Inl e \<Longrightarrow> e \<noteq> Wait"
    by (rule cosignerPeers_stop_not_Wait)
  have mode: "Mode config \<noteq> ''single''"
    using assms(4) by simp
  show ?thesis
    using assms(1-6) k mode
    apply (simp add: main_def terminatedBeforeServing_def Let_def
             split: option.splits outcome.splits prod.splits sum.splits)
    using peers stop by (metis isl_def sum.distinct(1))
qed

text \<open>
  C9 (amended). Let \<open>config\<close> be the configuration the loader returns for the
  \<open>--config\<close> flag. If its chain id is empty, or its mode is mpc with a zero
  cosigner threshold or an empty listen address, or its mode is neither single
  nor mpc, or its mode is mpc and some configured cosigner id lies outside 1..N,
  N being the number of peer keys in the cosigner key the key file gives, then
  \<open>main\<close> ends the process (by exit or panic) before any service has been started.
\<close>

theorem main_terminates_on_invalid_config:
  assumes "LoadConfigFromFile env (flag_config env) = Inr config"
    and "ChainID config = ''''
       \<or> (Mode config = ''mpc'' \<and> (CosignerThreshold config = 0 \<or> ListenAddress config = ''''))
       \<or> (Mode config \<noteq> ''single'' \<and> Mode config \<noteq> ''mpc'')
       \<or> (Mode config = ''mpc'' \<and>
           (\<exists>c \<in> set (Cosigners config). cosigner_ID c < 1 \<or>
              int (length (CosignerKeys
                (fst (LoadCosignerKey unmarshalKey os fs (PrivValKeyFile config))))) < cosigner_ID c))"
  shows "terminatedBeforeServing (main cdc os unmarshalKey env fs)"
proof (cases "flag_config env = ''''")
  case True
  then show ?thesis
    by (simp add: main_no_flag terminatedBeforeServing_def)
next
  case flag: False
  show ?thesis
  proof (cases "ChainID config = ''''")
    case True
    with flag assms(1) show ?thesis
      by (simp add: main_no_chain_id terminatedBeforeServing_def)
  next
    case chain: False
    show ?thesis
    proof (cases "Mode config = ''mpc''")
      case mpc: True
      show ?thesis
      proof (cases "CosignerThreshold config = 0")
        case True
        with flag assms(1) chain mpc show ?thesis
          by (simp add: main_mpc_no_threshold terminatedBeforeServing_def)
      next
        case thr: False
        show ?thesis
        proof (cases "ListenAddress config = ''''")
          case True
          with flag assms(1) chain mpc thr show ?thesis
            by (simp add: main_mpc_no_listen_address terminatedBeforeServing_def)
        next
          case False
          with assms(2) chain mpc thr
          have "\<exists>c \<in> set (Cosigners config). cosigner_ID c < 1 \<or>
              int (length (CosignerKeys
                (fst (LoadCosignerKey unmarshalKey os fs (PrivValKeyFile config))))) < cosigner_ID c"
            by simp
          with flag assms(1) chain mpc thr False show ?thesis
            by (rule main_mpc_bad_cosigner_id)
        qed
      qed
    next
      case False
      with assms(2) chain have "Mode config \<noteq> ''single''" by simp
      with flag assms(1) chain False show ?thesis
        by (simp add: main_unsupported_mode terminatedBeforeServing_def)
    qed
  qed
qed

lemma sample_key_file:
  "LoadCosignerKey (UnmarshalJSON_key sampleProto (sampleLibs (Some [10, 1, 2]) sampleKey)) sampleOS
     sampleDisk ''key.json'' = (sampleKey, None)"
proof -
  have "ReadFile sampleOS sampleDisk ''key.json'' = Inr sampleKeyJSON"
    by (simp add: sampleOS_def sampleDisk_def)
  moreover have "UnmarshalJSON_key sampleProto (sampleLibs (Some [10, 1, 2]) sampleKey) emptyCosignerKey
      sampleKeyJSON = (sampleKey, None)"
    by (simp add: UnmarshalJSON_key_def UnmarshalJSON_with_def decodeProto_def sampleProto_def
          sampleLibs_def sampleAux_def sampleKey_def emptyCosignerKey_def)
  ultimately show ?thesis
    by (simp add: LoadCosignerKey_def)
qed

lemma sampleConfig_fields:
  "Mode sampleConfig = ''mpc''" "PrivValKeyFile sampleConfig = ''key.json''"
  "PrivValStateDir sampleConfig = ''state''" "ChainID sampleConfig = ''chain''"
  "CosignerThreshold sampleConfig = 2" "ListenAddress sampleConfig = ''tcp://0.0.0.0:1234''"
  "Nodes sampleConfig = [\<lparr>node_Address = ''tcp://node:1234''\<rparr>]"
  by (simp_all add: sampleConfig_def)

lemma sample_run_serves:
  "main sampleCodec sampleOS (UnmarshalJSON_key sampleProto (sampleLibs (Some [10, 1, 2]) sampleKey))
     (sampleEnv sampleConfig) sampleDisk
   = (Wait, [CosignerRpcServer ''tcp://0.0.0.0:1234'', RemoteSignerService ''tcp://node:1234''])"
proof -
  have st: "LoadOrCreateSignState sampleCodec sampleOS sampleDisk ''state/chain_priv_validator_state.json''
      = Returns (emptySignState\<lparr>filePath := ''state/chain_priv_validator_state.json''\<rparr>, None,
          sampleDisk(''state/chain_priv_validator_state.json'' \<mapsto> (Some [0, 0, 0], 384)))"
    by (simp add: LoadOrCreateSignState_def LoadSignState_def Save_def sampleOS_def sampleCodec_def
          sampleDisk_def emptySignState_def perm0600_def)
  have sh: "LoadSignState sampleCodec sampleOS
      (sampleDisk(''state/chain_priv_validator_state.json'' \<mapsto> (Some [0, 0, 0], 384)))
      ''state/chain_share_sign_state.json''
      = (\<lparr>Height = 10, Round = 0, Step = 2, EphemeralPublic = None, Signature = None,
          SignBytes = None, filePath = ''state/chain_share_sign_state.json''\<rparr>, None)"
    by (simp add: LoadSignState_def sampleOS_def sampleCodec_def sampleDisk_def emptySignState_def)
  have peers: "cosignerPeers sampleKey (Cosigners sampleConfig)
      [\<lparr>peer_ID = ID sampleKey, peer_PublicKey = PublicKey (RSAKey sampleKey)\<rparr>]
      = Inr [\<lparr>peer_ID = 3, peer_PublicKey = \<lparr>rsaN = 33, rsaE = 3\<rparr>\<rparr>,
             \<lparr>peer_ID = 1, peer_PublicKey = \<lparr>rsaN = 35, rsaE = 5\<rparr>\<rparr>,
             \<lparr>peer_ID = 2, peer_PublicKey = \<lparr>rsaN = 33, rsaE = 3\<rparr>\<rparr>]"
    by (simp add: sampleConfig_def sampleKey_def)
  show ?thesis
    by (simp add: main_def sampleEnv_def sampleConfig_fields sample_key_file st sh peers)
qed

theorem main_terminates_on_invalid_config_witness:
  "terminatedBeforeServing
     (main sampleCodec sampleOS (UnmarshalJSON_key sampleProto (sampleLibs (Some [10, 1, 2]) sampleKey))
        (sampleEnv (sampleConfig\<lparr>ChainID := ''''\<rparr>)) sampleDisk)
   \<and> terminatedBeforeServing
     (main sampleCodec sampleOS (UnmarshalJSON_key sampleProto (sampleLibs (Some [10, 1, 2]) sampleKey))
        (sampleEnv (sampleConfig\<lparr>CosignerThreshold := 0\<rparr>)) sampleDisk)
   \<and> terminatedBeforeServing
     (main sampleCodec sampleOS (UnmarshalJSON_key sampleProto (sampleLibs (Some [10, 1, 2]) sampleKey))
        (sampleEnv (sampleConfig\<lparr>ListenAddress := ''''\<rparr>)) sampleDisk)
   \<and> terminatedBeforeServing
     (main sampleCodec sampleOS (UnmarshalJSON_key sampleProto (sampleLibs (Some [10, 1, 2]) sampleKey))
        (sampleEnv (sampleConfig\<lparr>Mode := ''threshold''\<rparr>)) sampleDisk)
   \<and> terminatedBeforeServing
     (main sampleCodec sampleOS (UnmarshalJSON_key sampleProto (sampleLibs (Some [10, 1, 2]) sampleKey))
        (sampleEnv (sampleConfig
           \<lparr>Cosigners := [\<lparr>cosigner_ID = 3, cosigner_Address = ''tcp://peer3:1234''\<rparr>]\<rparr>))
        sampleDisk)"
proof (intro conjI)
  let ?U = "UnmarshalJSON_key sampleProto (sampleLibs (Some [10, 1, 2]) sampleKey)"
  have loaded: "LoadConfigFromFile (sampleEnv c) (flag_config (sampleEnv c)) = Inr c" for c
    by (simp add: sampleEnv_def)
  show "terminatedBeforeServing
     (main sampleCodec sampleOS ?U (sampleEnv (sampleConfig\<lparr>ChainID := ''''\<rparr>)) sampleDisk)"
    by (rule main_terminates_on_invalid_config [OF loaded]) simp
  show "terminatedBeforeServing
     (main sampleCodec sampleOS ?U (sampleEnv (sampleConfig\<lparr>CosignerThreshold := 0\<rparr>)) sampleDisk)"
    by (rule main_terminates_on_invalid_config [OF loaded]) (simp add: sampleConfig_def)
  show "terminatedBeforeServing
     (main sampleCodec sampleOS ?U (sampleEnv (sampleConfig\<lparr>ListenAddress := ''''\<rparr>)) sampleDisk)"
    by (rule main_terminates_on_invalid_config [OF loaded]) (simp add: sampleConfig_def)
  show "terminatedBeforeServing
     (main sampleCodec sampleOS ?U (sampleEnv (sampleConfig\<lparr>Mode := ''threshold''\<rparr>)) sampleDisk)"
    by (rule main_terminates_on_invalid_config [OF loaded]) (simp add: sampleConfig_def)
  have "length (CosignerKeys sampleKey) = 2"
    by (simp add: sampleKey_def)
  then have n: "length (CosignerKeys (fst (LoadCosignerKey ?U sampleOS sampleDisk ''key.json''))) = 2"
    by (simp only: sample_key_file fst_conv)
  show "terminatedBeforeServing
     (main sampleCodec sampleOS ?U (sampleEnv (sampleConfig
           \<lparr>Cosigners := [\<lparr>cosigner_ID = 3, cosigner_Address = ''tcp://peer3:1234''\<rparr>]\<rparr>))
        sampleDisk)"
    by (rule main_terminates_on_invalid_config [OF loaded]) (simp add: sampleConfig_fields n)
qed

text \<open>
  C9 as stated fails: in single mode the cosigner list is never read, so a
  configured cosigner id of 0, outside 1..N for every N, does not stop the
  startup; \<open>main\<close> starts the remote signer and serves.
\<close>

theorem main_single_mode_counterexample:
  "main sampleCodec sampleOS (UnmarshalJSON_key sampleProto (sampleLibs (Some [10, 1, 2]) sampleKey))
     (sampleEnv (sampleConfig
        \<lparr>Mode := ''single'',
         Cosigners := [\<lparr>cosigner_ID = 0, cosigner_Address = ''tcp://peer0:1234''\<rparr>]\<rparr>))
     sampleDisk
   = (Wait, [RemoteSignerService ''tcp://node:1234''])
   \<and> \<not> terminatedBeforeServing
     (main sampleCodec sampleOS (UnmarshalJSON_key sampleProto (sampleLibs (Some [10, 1, 2]) sampleKey))
        (sampleEnv (sampleConfig
           \<lparr>Mode := ''single'',
            Cosigners := [\<lparr>cosigner_ID = 0, cosigner_Address = ''tcp://peer0:1234''\<rparr>]\<rparr>))
        sampleDisk)"
  by (simp add: main_def sampleEnv_def sampleConfig_def fileExists_def terminatedBeforeServing_def)

end
